theory Spec2Isabelle
  imports Main "HOL-Library.Word"
begin

section \<open>Batch swap execution of the liquidity module\<close>

text \<open>
  A shallow embedding of \<^verbatim>\<open>x/liquidity/keeper/swap.go\<close> (\<^verbatim>\<open>SwapExecution\<close>,
  \<^verbatim>\<open>UpdateState\<close>) and \<^verbatim>\<open>x/liquidity/keeper/grpc_query.go\<close> (the query server).

  \<^item> A Go panic is the left summand of a result: \<open>panic + 'a\<close>.
  \<^item> The orders are shared objects: \<^verbatim>\<open>[]*types.SwapMsgState\<close> and
    \<^verbatim>\<open>MatchResult.BatchMsg\<close> hold pointers to them. They live in an explicit
    store, a map from addresses to order states; a pointer is an address, and
    reading through an address the store does not hold is Go's nil dereference.
  \<^item> The functions the two files call and do not define (store accessors, order
    book, price discovery, matcher, settlement) are fields of a record of
    collaborators, so that every theorem holds for each of their implementations.
\<close>

subsection \<open>Amounts: \<^verbatim>\<open>sdk.Int\<close> and \<^verbatim>\<open>sdk.Dec\<close>\<close>

text \<open>
  \<^verbatim>\<open>sdk.Int\<close> wraps a big integer. \<^verbatim>\<open>sdk.Dec\<close> is a fixed-point decimal with 18
  fractional digits kept as a big integer scaled by \<open>10^18\<close>; the model holds that
  scaled integer. Both are unbounded here: the sdk's abort when a value outgrows
  its 255 (respectively 315) bits is not part of the model.
\<close>

type_synonym sdkInt = int
type_synonym Dec = int

definition Precision :: int where
  "Precision = 1000000000000000000"

definition ToDec :: "sdkInt \<Rightarrow> Dec" where
  "ToDec i = i * Precision"

definition ZeroDec :: Dec where
  "ZeroDec = 0"

definition OneDec :: Dec where
  "OneDec = Precision"

definition DecAdd :: "Dec \<Rightarrow> Dec \<Rightarrow> Dec" where
  "DecAdd a b = a + b"

definition DecSub :: "Dec \<Rightarrow> Dec \<Rightarrow> Dec" where
  "DecSub a b = a - b"

text \<open>\<^verbatim>\<open>Dec.TruncateInt\<close> drops the fractional digits, rounding toward zero.\<close>

definition TruncateInt :: "Dec \<Rightarrow> sdkInt" where
  "TruncateInt d = (if d < 0 then - ((- d) div Precision) else d div Precision)"

subsection \<open>Panics and errors\<close>

datatype error = ErrPoolNotExists | SettlementError string

datatype panic =
    NilPointerDereference
  | NegativeCoinAmount
  | InvalidCoinDenominations
  | IndexOutOfRange
  | RemainingNotMatched1
  | RemainingNotMatched2
  | RemainingNotMatched3
  | RemainingNotMatched4
  | ErrOrderBookInvalidity
  | DuplicatedMatchOrder
  | PanicError error
  | CollaboratorPanic string

subsection \<open>Coins\<close>

record Coin =
  Denom :: string
  Amount :: sdkInt

text \<open>
  \<^verbatim>\<open>sdk.NewCoin\<close> aborts on a negative amount and \<^verbatim>\<open>Coin.Add\<close> on two different
  denominations. Denominations are taken to be well formed, as those of the coins
  an order already holds are.
\<close>

definition NewCoin :: "string \<Rightarrow> sdkInt \<Rightarrow> panic + Coin" where
  "NewCoin denom amount =
     (if amount < 0 then Inl NegativeCoinAmount
      else Inr \<lparr>Denom = denom, Amount = amount\<rparr>)"

definition CoinAdd :: "Coin \<Rightarrow> Coin \<Rightarrow> panic + Coin" where
  "CoinAdd coin coinB =
     (if Denom coin \<noteq> Denom coinB then Inl InvalidCoinDenominations
      else Inr \<lparr>Denom = Denom coin, Amount = Amount coin + Amount coinB\<rparr>)"

text \<open>
  Modelled from the spec: \<^verbatim>\<open>types.CoinSafeSubAmount\<close> is not among the source
  files. Section 4.A: coin subtraction fails loudly on a negative result "except
  for a single safe-sub-amount variant that clamps at zero".
\<close>

definition CoinSafeSubAmount :: "Coin \<Rightarrow> sdkInt \<Rightarrow> Coin" where
  "CoinSafeSubAmount coinA coinBamt =
     (if Amount coinA - coinBamt < 0 then coinA\<lparr>Amount := 0\<rparr>
      else coinA\<lparr>Amount := Amount coinA - coinBamt\<rparr>)"

subsection \<open>Orders and match results\<close>

text \<open>
  The struct declarations are in the absent \<^verbatim>\<open>types\<close> package; the records carry
  the fields the two source files read or write, under their Go names.
\<close>

record MsgSwap =
  OfferCoin :: Coin
  OrderPrice :: Dec

record SwapMsgState =
  MsgIndex :: "64 word"
  Executed :: bool
  Succeeded :: bool
  ToBeDeleted :: bool
  ExchangedOfferCoin :: Coin
  RemainingOfferCoin :: Coin
  ReservedOfferCoinFee :: Coin
  Msg :: MsgSwap

type_synonym addr = nat
type_synonym store = "addr \<rightharpoonup> SwapMsgState"

record MatchResult =
  OrderMsgIndex :: "64 word"
  TransactedCoinAmt :: Dec
  ExchangedDemandCoinAmt :: Dec
  OfferCoinFeeAmt :: Dec
  BatchMsg :: addr

subsection \<open>\<^verbatim>\<open>UpdateState\<close>\<close>

text \<open>
  The three branches of the loop bodies (swap.go lines 137, 154, 174 and 188, 204,
  226), as the \<^verbatim>\<open>if\<close> chain decides them: the order in which the conditions are
  tried is the source's.
\<close>

datatype MatchClass = FullMatch | OffByOneDecimal | FractionalMatch

definition classify :: "SwapMsgState \<Rightarrow> MatchResult \<Rightarrow> MatchClass" where
  "classify b match =
     (if ToDec (Amount (OfferCoin (Msg b))) = TransactedCoinAmt match \<or>
         ToDec (Amount (RemainingOfferCoin b)) = TransactedCoinAmt match
      then FullMatch
      else if DecSub (ToDec (Amount (OfferCoin (Msg b)))) (TransactedCoinAmt match) = OneDec \<or>
              DecSub (ToDec (Amount (RemainingOfferCoin b))) (TransactedCoinAmt match) = OneDec
      then OffByOneDecimal
      else FractionalMatch)"

text \<open>
  The condition under which the full and the off-by-one branches abort (lines
  145-148, 165-168, 195-198, 217-220). \<^verbatim>\<open>Coin.Equal\<close> compares denomination and
  amount; \<^verbatim>\<open>IsGTE\<close> is called on two coins of one denomination.
\<close>

definition remainingNotMatched :: "SwapMsgState \<Rightarrow> bool" where
  "remainingNotMatched b =
     (Amount (RemainingOfferCoin b) + Amount (ExchangedOfferCoin b) > Amount (OfferCoin (Msg b)) \<or>
      RemainingOfferCoin b \<noteq> \<lparr>Denom = Denom (OfferCoin (Msg b)), Amount = 0\<rparr> \<or>
      Amount (ReservedOfferCoinFee b) \<ge> 2)"

text \<open>The local variables of \<^verbatim>\<open>UpdateState\<close> that the loops update, and the store.\<close>

record UpdateVars =
  orders :: store
  poolXdelta :: Dec
  poolYdelta :: Dec
  matchedIndexMapXtoY :: "64 word \<rightharpoonup> Coin"
  matchedIndexMapYtoX :: "64 word \<rightharpoonup> Coin"
  fractionalCntX :: int
  fractionalCntY :: int
  decimalErrorX :: Dec
  decimalErrorY :: Dec

text \<open>One iteration of the loop over \<^verbatim>\<open>matchResultXtoY\<close> (lines 134-184).\<close>

definition updateXtoY :: "MatchResult \<Rightarrow> UpdateVars \<Rightarrow> panic + UpdateVars" where
  "updateXtoY match v0 =
    (let v = v0\<lparr>poolXdelta := DecAdd (poolXdelta v0) (TransactedCoinAmt match),
                poolYdelta := DecSub (poolYdelta v0) (ExchangedDemandCoinAmt match)\<rparr> in
     case orders v (BatchMsg match) of
       None \<Rightarrow> Inl NilPointerDereference
     | Some b \<Rightarrow>
       (case classify b match of
          FullMatch \<Rightarrow>
            (case NewCoin (Denom (RemainingOfferCoin b)) (TruncateInt (TransactedCoinAmt match)) of
               Inl p \<Rightarrow> Inl p
             | Inr c \<Rightarrow>
            (case CoinAdd (ExchangedOfferCoin b) c of
               Inl p \<Rightarrow> Inl p
             | Inr e \<Rightarrow>
               let b = b\<lparr>ExchangedOfferCoin := e\<rparr>;
                   b = b\<lparr>RemainingOfferCoin :=
                         CoinSafeSubAmount (RemainingOfferCoin b) (TruncateInt (TransactedCoinAmt match))\<rparr>;
                   b = b\<lparr>ReservedOfferCoinFee :=
                         CoinSafeSubAmount (ReservedOfferCoinFee b) (TruncateInt (OfferCoinFeeAmt match))\<rparr>
               in if remainingNotMatched b then Inl RemainingNotMatched1
                  else Inr (v\<lparr>orders := (orders v)(BatchMsg match \<mapsto>
                                b\<lparr>Succeeded := True, ToBeDeleted := True\<rparr>)\<rparr>)))
        | OffByOneDecimal \<Rightarrow>
            (let v = v\<lparr>decimalErrorX := DecAdd (decimalErrorX v) OneDec\<rparr> in
             case NewCoin (Denom (RemainingOfferCoin b)) (TruncateInt (TransactedCoinAmt match)) of
               Inl p \<Rightarrow> Inl p
             | Inr c \<Rightarrow>
            (case CoinAdd (ExchangedOfferCoin b) c of
               Inl p \<Rightarrow> Inl p
             | Inr e \<Rightarrow>
               let b = b\<lparr>ExchangedOfferCoin := e\<rparr>;
                   b = b\<lparr>RemainingOfferCoin :=
                         CoinSafeSubAmount (RemainingOfferCoin b) (TruncateInt (TransactedCoinAmt match))\<rparr>;
                   b = b\<lparr>ReservedOfferCoinFee :=
                         CoinSafeSubAmount (ReservedOfferCoinFee b) (TruncateInt (OfferCoinFeeAmt match))\<rparr>;
                   b = (if Amount (RemainingOfferCoin b) = 1
                        then b\<lparr>RemainingOfferCoin := (RemainingOfferCoin b)\<lparr>Amount := 0\<rparr>\<rparr>
                        else b)
               in if remainingNotMatched b then Inl RemainingNotMatched2
                  else Inr (v\<lparr>orders := (orders v)(BatchMsg match \<mapsto>
                                b\<lparr>Succeeded := True, ToBeDeleted := True\<rparr>)\<rparr>)))
        | FractionalMatch \<Rightarrow>
            (case NewCoin (Denom (OfferCoin (Msg b))) (TruncateInt (TransactedCoinAmt match)) of
               Inl p \<Rightarrow> Inl p
             | Inr c \<Rightarrow>
            (case CoinAdd (ExchangedOfferCoin b) c of
               Inl p \<Rightarrow> Inl p
             | Inr e \<Rightarrow>
               let b = b\<lparr>ExchangedOfferCoin := e\<rparr>;
                   b = b\<lparr>RemainingOfferCoin :=
                         CoinSafeSubAmount (RemainingOfferCoin b) (TruncateInt (TransactedCoinAmt match))\<rparr>;
                   b = b\<lparr>ReservedOfferCoinFee :=
                         CoinSafeSubAmount (ReservedOfferCoinFee b) (TruncateInt (OfferCoinFeeAmt match))\<rparr>
               in Inr (v\<lparr>orders := (orders v)(BatchMsg match \<mapsto>
                            b\<lparr>Succeeded := True, ToBeDeleted := False\<rparr>),
                         matchedIndexMapXtoY :=
                           (matchedIndexMapXtoY v)(MsgIndex b \<mapsto> RemainingOfferCoin b),
                         fractionalCntX := fractionalCntX v + 1\<rparr>)))))"

text \<open>One iteration of the loop over \<^verbatim>\<open>matchResultYtoX\<close> (lines 185-236).\<close>

definition updateYtoX :: "MatchResult \<Rightarrow> UpdateVars \<Rightarrow> panic + UpdateVars" where
  "updateYtoX match v0 =
    (let v = v0\<lparr>poolXdelta := DecSub (poolXdelta v0) (ExchangedDemandCoinAmt match),
                poolYdelta := DecAdd (poolYdelta v0) (TransactedCoinAmt match)\<rparr> in
     case orders v (BatchMsg match) of
       None \<Rightarrow> Inl NilPointerDereference
     | Some b \<Rightarrow>
       (case classify b match of
          FullMatch \<Rightarrow>
            (case NewCoin (Denom (RemainingOfferCoin b)) (TruncateInt (TransactedCoinAmt match)) of
               Inl p \<Rightarrow> Inl p
             | Inr c \<Rightarrow>
            (case CoinAdd (ExchangedOfferCoin b) c of
               Inl p \<Rightarrow> Inl p
             | Inr e \<Rightarrow>
               let b = b\<lparr>ExchangedOfferCoin := e\<rparr>;
                   b = b\<lparr>RemainingOfferCoin :=
                         CoinSafeSubAmount (RemainingOfferCoin b) (TruncateInt (TransactedCoinAmt match))\<rparr>;
                   b = b\<lparr>ReservedOfferCoinFee :=
                         CoinSafeSubAmount (ReservedOfferCoinFee b) (TruncateInt (OfferCoinFeeAmt match))\<rparr>
               in if remainingNotMatched b then Inl RemainingNotMatched3
                  else Inr (v\<lparr>orders := (orders v)(BatchMsg match \<mapsto>
                                b\<lparr>Succeeded := True, ToBeDeleted := True\<rparr>)\<rparr>)))
        | OffByOneDecimal \<Rightarrow>
            (let v = v\<lparr>decimalErrorY := DecAdd (decimalErrorY v) OneDec\<rparr> in
             case NewCoin (Denom (RemainingOfferCoin b)) (TruncateInt (TransactedCoinAmt match)) of
               Inl p \<Rightarrow> Inl p
             | Inr c \<Rightarrow>
            (case CoinAdd (ExchangedOfferCoin b) c of
               Inl p \<Rightarrow> Inl p
             | Inr e \<Rightarrow>
               let b = b\<lparr>ExchangedOfferCoin := e\<rparr>;
                   b = b\<lparr>RemainingOfferCoin :=
                         CoinSafeSubAmount (RemainingOfferCoin b) (TruncateInt (TransactedCoinAmt match))\<rparr>;
                   b = b\<lparr>ReservedOfferCoinFee :=
                         CoinSafeSubAmount (ReservedOfferCoinFee b) (TruncateInt (OfferCoinFeeAmt match))\<rparr>;
                   b = (if Amount (RemainingOfferCoin b) = 1
                        then b\<lparr>RemainingOfferCoin := (RemainingOfferCoin b)\<lparr>Amount := 0\<rparr>\<rparr>
                        else b)
               in if remainingNotMatched b then Inl RemainingNotMatched4
                  else Inr (v\<lparr>orders := (orders v)(BatchMsg match \<mapsto>
                                b\<lparr>Succeeded := True, ToBeDeleted := True\<rparr>)\<rparr>)))
        | FractionalMatch \<Rightarrow>
            (case NewCoin (Denom (OfferCoin (Msg b))) (TruncateInt (TransactedCoinAmt match)) of
               Inl p \<Rightarrow> Inl p
             | Inr c \<Rightarrow>
            (case CoinAdd (ExchangedOfferCoin b) c of
               Inl p \<Rightarrow> Inl p
             | Inr e \<Rightarrow>
               let b = b\<lparr>ExchangedOfferCoin := e\<rparr>;
                   b = b\<lparr>RemainingOfferCoin :=
                         CoinSafeSubAmount (RemainingOfferCoin b) (TruncateInt (TransactedCoinAmt match))\<rparr>;
                   b = b\<lparr>ReservedOfferCoinFee :=
                         CoinSafeSubAmount (ReservedOfferCoinFee b) (TruncateInt (OfferCoinFeeAmt match))\<rparr>
               in Inr (v\<lparr>orders := (orders v)(BatchMsg match \<mapsto>
                            b\<lparr>Succeeded := True, ToBeDeleted := False\<rparr>),
                         matchedIndexMapYtoX :=
                           (matchedIndexMapYtoX v)(MsgIndex b \<mapsto> RemainingOfferCoin b),
                         fractionalCntY := fractionalCntY v + 1\<rparr>)))))"

text \<open>The two loops: the first panic ends the run.\<close>

fun updateAllXtoY :: "MatchResult list \<Rightarrow> UpdateVars \<Rightarrow> panic + UpdateVars" where
  "updateAllXtoY [] v = Inr v"
| "updateAllXtoY (match # rest) v =
     (case updateXtoY match v of Inl p \<Rightarrow> Inl p | Inr v' \<Rightarrow> updateAllXtoY rest v')"

fun updateAllYtoX :: "MatchResult list \<Rightarrow> UpdateVars \<Rightarrow> panic + UpdateVars" where
  "updateAllYtoX [] v = Inr v"
| "updateAllYtoX (match # rest) v =
     (case updateYtoX match v of Inl p \<Rightarrow> Inl p | Inr v' \<Rightarrow> updateAllYtoX rest v')"

text \<open>
  \<^verbatim>\<open>sort.SliceStable\<close> (lines 116-121) orders the pointers by the order price read
  through them, keeping the order of equal prices. With two or more elements each
  one is compared, so a pointer the store does not hold aborts the sort.
\<close>

definition sortSliceStable :: "store \<Rightarrow> (Dec \<Rightarrow> Dec) \<Rightarrow> addr list \<Rightarrow> panic + addr list" where
  "sortSliceStable h key ps =
     (if 2 \<le> length ps \<and> (\<exists>p \<in> set ps. h p = None) then Inl NilPointerDereference
      else Inr (sort_key (\<lambda>p. case h p of None \<Rightarrow> 0 | Some b \<Rightarrow> key (OrderPrice (Msg b))) ps))"

text \<open>The variables as lines 123-132 initialise them, over the store \<open>h\<close>.\<close>

definition initialVars :: "store \<Rightarrow> UpdateVars" where
  "initialVars h =
     \<lparr>orders = h, poolXdelta = ZeroDec, poolYdelta = ZeroDec,
      matchedIndexMapXtoY = Map.empty, matchedIndexMapYtoX = Map.empty,
      fractionalCntX = 0, fractionalCntY = 0, decimalErrorX = ZeroDec, decimalErrorY = ZeroDec\<rparr>"

text \<open>
  \<^verbatim>\<open>UpdateState\<close> (lines 114-246). The result is the Go result tuple
  \<^verbatim>\<open>(XtoY, YtoX, X, Y, poolXdelta, poolYdelta, fractionalCntX, fractionalCntY,
  decimalErrorX, decimalErrorY)\<close>, the last six held by the variables, together with
  the store the loops have written through the pointers.
\<close>

definition UpdateState ::
  "Dec \<Rightarrow> Dec \<Rightarrow> addr list \<Rightarrow> addr list \<Rightarrow> MatchResult list \<Rightarrow> MatchResult list \<Rightarrow> store \<Rightarrow>
   panic + (addr list \<times> addr list \<times> Dec \<times> Dec \<times> UpdateVars)" where
  "UpdateState X Y XtoY YtoX matchResultXtoY matchResultYtoX h =
     (case sortSliceStable h (\<lambda>price. - price) XtoY of
        Inl p \<Rightarrow> Inl p
      | Inr XtoY \<Rightarrow>
     (case sortSliceStable h (\<lambda>price. price) YtoX of
        Inl p \<Rightarrow> Inl p
      | Inr YtoX \<Rightarrow>
        (case updateAllXtoY matchResultXtoY (initialVars h) of
           Inl p \<Rightarrow> Inl p
         | Inr v \<Rightarrow>
        (case updateAllYtoX matchResultYtoX v of
           Inl p \<Rightarrow> Inl p
         | Inr v \<Rightarrow>
           let v = v\<lparr>poolXdelta := DecAdd (poolXdelta v) (decimalErrorX v)\<rparr>;
               v = v\<lparr>poolYdelta := DecAdd (poolYdelta v) (decimalErrorY v)\<rparr>;
               X = DecAdd X (poolXdelta v);
               Y = DecAdd Y (poolYdelta v)
           in Inr (XtoY, YtoX, X, Y, v)))))"


subsection \<open>\<^verbatim>\<open>SwapExecution\<close>\<close>

record Pool =
  Id :: "64 word"

record PoolBatch =
  PoolId :: "64 word"

text \<open>The fields \<^verbatim>\<open>EX\<close> and \<^verbatim>\<open>EY\<close> of the batch result are \<open>ResultEX\<close> and \<open>ResultEY\<close>.\<close>

record BatchResult =
  MatchType :: int
  SwapPrice :: Dec
  ResultEX :: Dec
  ResultEY :: Dec

text \<open>
  What \<^verbatim>\<open>SwapExecution\<close> calls and the source files do not define: the keeper's
  store accessors over the state \<open>'s\<close> behind \<^verbatim>\<open>ctx\<close>, the order map \<open>'om\<close> and
  order book \<open>'ob\<close> of package \<^verbatim>\<open>types\<close> with price discovery (\<^verbatim>\<open>Match\<close>), the
  matcher (\<^verbatim>\<open>FindOrderMatch\<close>), the invariant checks and the settlement, the
  constants \<^verbatim>\<open>types.NoMatch\<close>, \<^verbatim>\<open>types.DirectionXtoY\<close>, \<^verbatim>\<open>types.DirectionYtoX\<close>
  and \<^verbatim>\<open>invariantCheckFlag\<close>, and the quotient \<^verbatim>\<open>Dec.Quo\<close> of the sdk (it aborts on
  a zero divisor; its rounding is left open). A function that is handed pointers
  reads the store; \<^verbatim>\<open>ValidateStateAndExpireOrders\<close> also writes it. The checks
  that can abort return a panic.
\<close>

record ('s, 'om, 'ob) Keeper =
  GetAllNotProcessedPoolBatchSwapMsgStates :: "'s \<Rightarrow> PoolBatch \<Rightarrow> SwapMsgState list"
  GetPool :: "'s \<Rightarrow> 64 word \<Rightarrow> Pool option"
  GetLiquidityPool :: "'s \<Rightarrow> 64 word \<Rightarrow> Pool option"
  SetPoolBatchSwapMsgStatesByPointer :: "'s \<Rightarrow> 64 word \<Rightarrow> SwapMsgState list \<Rightarrow> 's"
  BlockHeight :: "'s \<Rightarrow> int"
  GetReserveCoins :: "'s \<Rightarrow> Pool \<Rightarrow> Coin list"
  ValidateStateAndExpireOrders :: "addr list \<Rightarrow> int \<Rightarrow> bool \<Rightarrow> store \<Rightarrow> panic + store"
  Quo :: "Dec \<Rightarrow> Dec \<Rightarrow> panic + Dec"
  MakeOrderMap :: "store \<Rightarrow> addr list \<Rightarrow> string \<Rightarrow> string \<Rightarrow> bool \<Rightarrow> 'om \<times> addr list \<times> addr list"
  SortOrderBook :: "'om \<Rightarrow> 'ob"
  Match :: "'ob \<Rightarrow> Dec \<Rightarrow> Dec \<Rightarrow> BatchResult"
  Validate :: "'ob \<Rightarrow> Dec \<Rightarrow> bool"
  NoMatch :: int
  DirectionXtoY :: int
  DirectionYtoX :: int
  FindOrderMatch ::
    "store \<Rightarrow> int \<Rightarrow> addr list \<Rightarrow> Dec \<Rightarrow> Dec \<Rightarrow> int \<Rightarrow> MatchResult list \<times> addr list \<times> Dec \<times> Dec"
  invariantCheckFlag :: bool
  SwapPriceInvariants ::
    "store \<Rightarrow> addr list \<Rightarrow> addr list \<Rightarrow> MatchResult list \<Rightarrow> MatchResult list \<Rightarrow> int \<Rightarrow> int \<Rightarrow>
     Dec \<Rightarrow> Dec \<Rightarrow> Dec \<Rightarrow> Dec \<Rightarrow> Dec \<Rightarrow> Dec \<Rightarrow> BatchResult \<Rightarrow> panic option"
  OrdersWithExecutedAndNotExecutedStateInvariants ::
    "store \<Rightarrow> MatchResult list \<Rightarrow> MatchResult list \<Rightarrow> (64 word \<rightharpoonup> MatchResult) \<Rightarrow> addr list \<Rightarrow>
     addr list \<Rightarrow> addr list \<Rightarrow> BatchResult \<Rightarrow> Dec \<Rightarrow> string \<Rightarrow> panic option"
  TransactAndRefundSwapLiquidityPool ::
    "'s \<Rightarrow> store \<Rightarrow> addr list \<Rightarrow> (64 word \<rightharpoonup> MatchResult) \<Rightarrow> Pool \<Rightarrow> BatchResult \<Rightarrow> error + 's"

text \<open>
  The message states \<^verbatim>\<open>GetAllNotProcessedPoolBatchSwapMsgStates\<close> returns are fresh
  objects; the slice \<^verbatim>\<open>swapMsgStates\<close> of pointers to them is the list of the
  addresses \<open>0, ..., n - 1\<close> of a store that holds the \<open>n\<close> objects.
\<close>

definition allocate :: "SwapMsgState list \<Rightarrow> store" where
  "allocate objs = (\<lambda>a. if a < length objs then Some (objs ! a) else None)"

text \<open>
  The local variables of \<^verbatim>\<open>SwapExecution\<close> once price discovery has returned
  (line 47): \<open>ctx\<close> is the keeper's state after line 28.
\<close>

record 's BatchVars =
  ctx :: 's
  pool :: Pool
  swapMsgStates :: "addr list"
  objects :: store
  currentHeight :: int
  reserveX :: Dec
  reserveY :: Dec
  currentPoolPrice :: Dec
  denomX :: string
  denomY :: string
  ordersXtoY :: "addr list"
  ordersYtoX :: "addr list"
  result :: BatchResult

text \<open>What a Go call returns: \<^verbatim>\<open>(uint64, error)\<close>, and the keeper's state it leaves.\<close>

type_synonym 's returned = "'s \<times> 64 word \<times> error option"

datatype 's discovered = Return "'s returned" | Batch "'s BatchVars"

text \<open>Lines 14-47: up to the batch result of price discovery.\<close>

definition priceDiscovery ::
  "('s, 'om, 'ob) Keeper \<Rightarrow> 's \<Rightarrow> PoolBatch \<Rightarrow> panic + 's discovered" where
  "priceDiscovery k s liquidityPoolBatch =
    (let msgs = GetAllNotProcessedPoolBatchSwapMsgStates k s liquidityPoolBatch in
     if length msgs = 0 then Inr (Return (s, 0, None))
     else
       case GetPool k s (PoolId liquidityPoolBatch) of
         None \<Rightarrow> Inr (Return (s, 0, Some ErrPoolNotExists))
       | Some pl \<Rightarrow>
         let msgs = map (\<lambda>sms. sms\<lparr>Executed := True\<rparr>) msgs;
             s = SetPoolBatchSwapMsgStatesByPointer k s (Id pl) msgs;
             ptrs = [0..<length msgs];
             height = BlockHeight k s
         in
         (case ValidateStateAndExpireOrders k ptrs height False (allocate msgs) of
            Inl p \<Rightarrow> Inl p
          | Inr h \<Rightarrow>
            let reserveCoins = GetReserveCoins k s pl in
            if length reserveCoins < 2 then Inl IndexOutOfRange
            else
              let X = ToDec (Amount (reserveCoins ! 0));
                  Y = ToDec (Amount (reserveCoins ! 1))
              in
              (case Quo k X Y of
                 Inl p \<Rightarrow> Inl p
               | Inr price \<Rightarrow>
                 let dX = Denom (reserveCoins ! 0);
                     dY = Denom (reserveCoins ! 1);
                     (orderMap, XtoY, YtoX) = MakeOrderMap k h ptrs dX dY False;
                     orderBook = SortOrderBook k orderMap
                 in Inr (Batch \<lparr>ctx = s, pool = pl, swapMsgStates = ptrs, objects = h,
                                  currentHeight = height, reserveX = X, reserveY = Y,
                                  currentPoolPrice = price, denomX = dX, denomY = dY,
                                  ordersXtoY = XtoY, ordersYtoX = YtoX,
                                  result = Match k orderBook X Y\<rparr>))))"

text \<open>
  Lines 50-61: the matcher runs on each side unless the match type is
  \<^verbatim>\<open>types.NoMatch\<close>. The value is \<^verbatim>\<open>(matchResultXtoY, matchResultYtoX, poolXdelta,
  poolYdelta)\<close>; an unset slice is the empty list.
\<close>

definition findOrderMatches ::
  "('s, 'om, 'ob) Keeper \<Rightarrow> 's BatchVars \<Rightarrow> MatchResult list \<times> MatchResult list \<times> Dec \<times> Dec" where
  "findOrderMatches k b =
    (if MatchType (result b) \<noteq> NoMatch k then
       let (matchResultXtoY, _, poolXDeltaXtoY, poolYDeltaXtoY) =
             FindOrderMatch k (objects b) (DirectionXtoY k) (ordersXtoY b) (ResultEX (result b))
               (SwapPrice (result b)) (currentHeight b);
           (matchResultYtoX, _, poolXDeltaYtoX, poolYDeltaYtoX) =
             FindOrderMatch k (objects b) (DirectionYtoX k) (ordersYtoX b) (ResultEY (result b))
               (SwapPrice (result b)) (currentHeight b)
       in (matchResultXtoY, matchResultYtoX,
           DecAdd poolXDeltaXtoY poolXDeltaYtoX, DecAdd poolYDeltaXtoY poolYDeltaYtoX)
     else ([], [], ZeroDec, ZeroDec))"

text \<open>Lines 91-98: the index of the match results; a second result of one index aborts.\<close>

fun indexMatchResults ::
  "MatchResult list \<Rightarrow> (64 word \<rightharpoonup> MatchResult) \<Rightarrow> panic + (64 word \<rightharpoonup> MatchResult)" where
  "indexMatchResults [] matchResultMap = Inr matchResultMap"
| "indexMatchResults (msg # rest) matchResultMap =
     (if matchResultMap (OrderMsgIndex msg) \<noteq> None then Inl DuplicatedMatchOrder
      else indexMatchResults rest (matchResultMap(OrderMsgIndex msg \<mapsto> msg)))"


text \<open>
  Lines 69-80: \<^verbatim>\<open>UpdateState\<close>, the last price \<open>X / Y\<close> of the new reserves, the
  optional invariant check and the validation of both sides. The value is
  \<^verbatim>\<open>(XtoY, YtoX, lastPrice)\<close> and the store.
\<close>

definition applyMatches ::
  "('s, 'om, 'ob) Keeper \<Rightarrow> 's BatchVars \<Rightarrow> MatchResult list \<times> MatchResult list \<times> Dec \<times> Dec \<Rightarrow>
   panic + (addr list \<times> addr list \<times> Dec \<times> store)" where
  "applyMatches k b matches =
    (let (matchResultXtoY, matchResultYtoX, poolXdelta1, poolYdelta1) = matches in
     case UpdateState (reserveX b) (reserveY b) (ordersXtoY b) (ordersYtoX b)
            matchResultXtoY matchResultYtoX (objects b) of
       Inl p \<Rightarrow> Inl p
     | Inr (XtoY, YtoX, X, Y, v) \<Rightarrow>
       (case Quo k X Y of
          Inl p \<Rightarrow> Inl p
        | Inr lastPrice \<Rightarrow>
          (case (if invariantCheckFlag k
                 then SwapPriceInvariants k (orders v) XtoY YtoX matchResultXtoY matchResultYtoX
                        (fractionalCntX v) (fractionalCntY v) poolXdelta1 poolYdelta1
                        (poolXdelta v) (poolYdelta v) (decimalErrorX v) (decimalErrorY v) (result b)
                 else None) of
             Some p \<Rightarrow> Inl p
           | None \<Rightarrow>
             (case ValidateStateAndExpireOrders k XtoY (currentHeight b) False (orders v) of
                Inl p \<Rightarrow> Inl p
              | Inr h \<Rightarrow>
                (case ValidateStateAndExpireOrders k YtoX (currentHeight b) False h of
                   Inl p \<Rightarrow> Inl p
                 | Inr h \<Rightarrow> Inr (XtoY, YtoX, lastPrice, h))))))"

text \<open>
  Lines 63-110. \<^verbatim>\<open>panic(err)\<close> on a failed settlement is the panic \<open>PanicError err\<close>.
\<close>

definition settleBatch ::
  "('s, 'om, 'ob) Keeper \<Rightarrow> 's BatchVars \<Rightarrow> MatchResult list \<times> MatchResult list \<times> Dec \<times> Dec \<Rightarrow>
   panic + 's returned" where
  "settleBatch k b matches =
    (let (matchResultXtoY, matchResultYtoX, poolXdelta1, poolYdelta1) = matches;
         executedMsgCount = (of_nat (length (swapMsgStates b)) :: 64 word)
     in
     if MatchType (result b) = 0 then Inr (ctx b, executedMsgCount, None)
     else
       case applyMatches k b matches of
         Inl p \<Rightarrow> Inl p
       | Inr (XtoY, YtoX, lastPrice, h) \<Rightarrow>
         let (orderMapExecuted, _, _) = MakeOrderMap k h (XtoY @ YtoX) (denomX b) (denomY b) True;
             orderBookExecuted = SortOrderBook k orderMapExecuted
         in
         if \<not> Validate k orderBookExecuted lastPrice then Inl ErrOrderBookInvalidity
         else
           (case ValidateStateAndExpireOrders k XtoY (currentHeight b) True h of
              Inl p \<Rightarrow> Inl p
            | Inr h \<Rightarrow>
              (case ValidateStateAndExpireOrders k YtoX (currentHeight b) True h of
                 Inl p \<Rightarrow> Inl p
               | Inr h \<Rightarrow>
                 (case indexMatchResults (matchResultXtoY @ matchResultYtoX) Map.empty of
                    Inl p \<Rightarrow> Inl p
                  | Inr matchResultMap \<Rightarrow>
                    (case (if invariantCheckFlag k
                           then OrdersWithExecutedAndNotExecutedStateInvariants k h
                                  matchResultXtoY matchResultYtoX matchResultMap (swapMsgStates b)
                                  XtoY YtoX (result b) (currentPoolPrice b) (denomX b)
                           else None) of
                       Some p \<Rightarrow> Inl p
                     | None \<Rightarrow>
                       (case TransactAndRefundSwapLiquidityPool k (ctx b) h (swapMsgStates b)
                               matchResultMap (pool b) (result b) of
                          Inl err \<Rightarrow> Inl (PanicError err)
                        | Inr s \<Rightarrow> Inr (s, executedMsgCount, None)))))))"

text \<open>\<^verbatim>\<open>SwapExecution\<close> (lines 12-111).\<close>

definition SwapExecution ::
  "('s, 'om, 'ob) Keeper \<Rightarrow> 's \<Rightarrow> PoolBatch \<Rightarrow> panic + 's returned" where
  "SwapExecution k s liquidityPoolBatch =
    (case priceDiscovery k s liquidityPoolBatch of
       Inl p \<Rightarrow> Inl p
     | Inr (Return r) \<Rightarrow> Inr r
     | Inr (Batch b) \<Rightarrow> settleBatch k b (findOrderMatches k b))"

subsection \<open>The query server\<close>

text \<open>
  A request pointer is an option (\<^verbatim>\<open>nil\<close> is \<open>None\<close>), as are the response
  pointer and the error. \<^verbatim>\<open>status.Errorf\<close> is kept as its code, format and
  arguments.
\<close>

datatype Code = InvalidArgument | NotFound

datatype Status = Errorf Code string "64 word list"

record QueryLiquidityPoolRequest =
  ReqPoolId :: "64 word"

record QueryLiquidityPoolResponse =
  RespLiquidityPool :: Pool

text \<open>
  \<^verbatim>\<open>LiquidityPool\<close> (grpc_query.go lines 15-28), with the keeper's state before
  and after the call. The request field \<^verbatim>\<open>PoolId\<close> is \<open>ReqPoolId\<close> and the response
  field \<^verbatim>\<open>LiquidityPool\<close> is \<open>RespLiquidityPool\<close>.
\<close>

definition LiquidityPool ::
  "('s, 'om, 'ob) Keeper \<Rightarrow> 's \<Rightarrow> QueryLiquidityPoolRequest option \<Rightarrow>
   's \<times> QueryLiquidityPoolResponse option \<times> Status option" where
  "LiquidityPool k s req =
    (case req of
       None \<Rightarrow> (s, None, Some (Errorf InvalidArgument ''empty request'' []))
     | Some r \<Rightarrow>
       (case GetLiquidityPool k s (ReqPoolId r) of
          None \<Rightarrow> (s, None, Some (Errorf NotFound ''liquidity pool %d doesn't exist'' [ReqPoolId r]))
        | Some pl \<Rightarrow> (s, Some \<lparr>RespLiquidityPool = pl\<rparr>, None)))"

text \<open>Lines 30-53: the handlers that are not written yet.\<close>

definition LiquidityPools :: "'s \<Rightarrow> 'req option \<Rightarrow> 's \<times> 'resp option \<times> Status option" where
  "LiquidityPools s req = (s, None, None)"

definition LiquidityPoolBatch :: "'s \<Rightarrow> 'req option \<Rightarrow> 's \<times> 'resp option \<times> Status option" where
  "LiquidityPoolBatch s req = (s, None, None)"

definition PoolBatchSwapMsgs :: "'s \<Rightarrow> 'req option \<Rightarrow> 's \<times> 'resp option \<times> Status option" where
  "PoolBatchSwapMsgs s req = (s, None, None)"

definition PoolBatchDepositMsgs :: "'s \<Rightarrow> 'req option \<Rightarrow> 's \<times> 'resp option \<times> Status option" where
  "PoolBatchDepositMsgs s req = (s, None, None)"

definition PoolBatchWithdrawMsgs :: "'s \<Rightarrow> 'req option \<Rightarrow> 's \<times> 'resp option \<times> Status option" where
  "PoolBatchWithdrawMsgs s req = (s, None, None)"

definition Params :: "'s \<Rightarrow> 'req option \<Rightarrow> 's \<times> 'resp option \<times> Status option" where
  "Params s req = (s, None, None)"


section \<open>Example inputs\<close>

text \<open>
  An order on the \<open>x\<close> side held at address 0, a fill of it, and the variables of
  \<^verbatim>\<open>UpdateState\<close> as they are before the first iteration.
\<close>

definition exampleOrder :: "sdkInt \<Rightarrow> sdkInt \<Rightarrow> sdkInt \<Rightarrow> sdkInt \<Rightarrow> SwapMsgState" where
  "exampleOrder original remaining exchanged fee =
     \<lparr>MsgIndex = 1, Executed = True, Succeeded = False, ToBeDeleted = False,
      ExchangedOfferCoin = \<lparr>Denom = ''x'', Amount = exchanged\<rparr>,
      RemainingOfferCoin = \<lparr>Denom = ''x'', Amount = remaining\<rparr>,
      ReservedOfferCoinFee = \<lparr>Denom = ''x'', Amount = fee\<rparr>,
      Msg = \<lparr>OfferCoin = \<lparr>Denom = ''x'', Amount = original\<rparr>, OrderPrice = OneDec\<rparr>\<rparr>"

definition exampleFill :: "Dec \<Rightarrow> Dec \<Rightarrow> Dec \<Rightarrow> MatchResult" where
  "exampleFill transacted demand fee =
     \<lparr>OrderMsgIndex = 1, TransactedCoinAmt = transacted, ExchangedDemandCoinAmt = demand,
      OfferCoinFeeAmt = fee, BatchMsg = 0\<rparr>"

definition exampleVars :: "SwapMsgState \<Rightarrow> UpdateVars" where
  "exampleVars b = initialVars [0 \<mapsto> b]"

text \<open>A second order, held at address 1, and a fill of all of it.\<close>

definition exampleStore :: store where
  "exampleStore =
     [0 \<mapsto> exampleOrder 10 10 0 1, 1 \<mapsto> (exampleOrder 20 20 0 0)\<lparr>MsgIndex := 2\<rparr>]"

definition exampleFillY :: MatchResult where
  "exampleFillY =
     (exampleFill 20000000000000000000 19000000000000000000 0)\<lparr>OrderMsgIndex := 2, BatchMsg := 1\<rparr>"

text \<open>
  A keeper for the examples. Its state is the list of the message states of the
  batch and the number of settlements run so far; pool 1 exists, with reserves of
  1000 and 1000; every order is on the \<open>x\<close> side; price discovery answers with the
  given match type and the price 1; the matcher answers with the given fills at
  that price and with none at any other; the executed order book is valid as
  given; the settlement stores the orders as \<^verbatim>\<open>UpdateState\<close> left them.
\<close>

definition exampleKeeper ::
  "int \<Rightarrow> MatchResult list \<Rightarrow> MatchResult list \<Rightarrow> bool \<Rightarrow>
   (SwapMsgState list \<times> nat, unit, unit) Keeper" where
  "exampleKeeper matchType fillsX fillsY valid =
     \<lparr>GetAllNotProcessedPoolBatchSwapMsgStates = (\<lambda>s batch. fst s),
      GetPool = (\<lambda>s i. if i = 1 then Some \<lparr>Id = 1\<rparr> else None),
      GetLiquidityPool = (\<lambda>s i. if i = 1 then Some \<lparr>Id = 1\<rparr> else None),
      SetPoolBatchSwapMsgStatesByPointer = (\<lambda>s i msgs. (msgs, snd s)),
      BlockHeight = (\<lambda>s. 7),
      GetReserveCoins =
        (\<lambda>s p. [\<lparr>Denom = ''x'', Amount = 1000\<rparr>, \<lparr>Denom = ''y'', Amount = 1000\<rparr>]),
      ValidateStateAndExpireOrders = (\<lambda>ps height expire h. Inr h),
      Quo = (\<lambda>a b. if b = 0 then Inl (CollaboratorPanic ''division by zero'')
                     else Inr (a * Precision div b)),
      MakeOrderMap = (\<lambda>h ps dX dY onlyNotMatched. ((), ps, [])),
      SortOrderBook = (\<lambda>orderMap. ()),
      Match = (\<lambda>orderBook X Y.
        \<lparr>MatchType = matchType, SwapPrice = OneDec, ResultEX = ToDec 10, ResultEY = ZeroDec\<rparr>),
      Validate = (\<lambda>orderBook price. valid),
      NoMatch = 2,
      DirectionXtoY = 1,
      DirectionYtoX = 2,
      FindOrderMatch = (\<lambda>h direction ps e price height.
        (if price = OneDec then (if direction = 1 then fillsX else fillsY) else [],
         [], ZeroDec, ZeroDec)),
      invariantCheckFlag = False,
      SwapPriceInvariants = (\<lambda>h XtoY YtoX mX mY cX cY dX dY dX2 dY2 eX eY r. None),
      OrdersWithExecutedAndNotExecutedStateInvariants =
        (\<lambda>h mX mY mm ps XtoY YtoX r price dX. None),
      TransactAndRefundSwapLiquidityPool =
        (\<lambda>s h ps matchResultMap pl r. Inr (List.map_filter h ps, Suc (snd s)))\<rparr>"

definition exampleBatch :: PoolBatch where
  "exampleBatch = \<lparr>PoolId = 1\<rparr>"

text \<open>
  The local variables after price discovery in a batch of the one order \<open>ord\<close>
  under the example keeper.
\<close>

definition exampleVarsAfterDiscovery ::
  "int \<Rightarrow> SwapMsgState \<Rightarrow> (SwapMsgState list \<times> nat) BatchVars" where
  "exampleVarsAfterDiscovery matchType ord =
     \<lparr>ctx = ([ord], 0), pool = \<lparr>Id = 1\<rparr>, swapMsgStates = [0],
      objects = allocate [ord], currentHeight = 7,
      reserveX = ToDec 1000, reserveY = ToDec 1000, currentPoolPrice = OneDec,
      denomX = ''x'', denomY = ''y'', ordersXtoY = [0], ordersYtoX = [],
      result = \<lparr>MatchType = matchType, SwapPrice = OneDec, ResultEX = ToDec 10,
                ResultEY = ZeroDec\<rparr>\<rparr>"

text \<open>
  A matcher that answers with its fill at every price, and a settlement that
  fails on a batch result of another price than 1.
\<close>

definition exampleMatcher ::
  "store \<Rightarrow> int \<Rightarrow> addr list \<Rightarrow> Dec \<Rightarrow> Dec \<Rightarrow> int \<Rightarrow> MatchResult list \<times> addr list \<times> Dec \<times> Dec" where
  "exampleMatcher h direction ps e price height =
     (if direction = 1 then [exampleFill 10000000000000000000 9000000000000000000 0] else [],
      [], ZeroDec, ZeroDec)"

definition exampleSettlement ::
  "SwapMsgState list \<times> nat \<Rightarrow> store \<Rightarrow> addr list \<Rightarrow> (64 word \<rightharpoonup> MatchResult) \<Rightarrow> Pool \<Rightarrow>
   BatchResult \<Rightarrow> error + SwapMsgState list \<times> nat" where
  "exampleSettlement s h ps matchResultMap pl r =
     (if SwapPrice r = OneDec then Inr (List.map_filter h ps, Suc (snd s))
      else Inl (SettlementError ''another price''))"

lemmas example_defs =
  exampleOrder_def exampleFill_def exampleVars_def initialVars_def exampleStore_def
  exampleFillY_def

lemmas dec_defs =
  Precision_def ToDec_def ZeroDec_def OneDec_def DecAdd_def DecSub_def TruncateInt_def

lemmas coin_defs = NewCoin_def CoinAdd_def CoinSafeSubAmount_def

section \<open>Settlement of one match result\<close>

subsection \<open>Truncation\<close>

lemma TruncateInt_le:
  assumes "t \<le> ToDec r"
  shows "TruncateInt t \<le> r"
proof -
  have P: "0 < Precision" by (simp add: Precision_def)
  have cancel: "(i * Precision) div Precision = i" for i using P by simp
  show ?thesis
  proof (cases "t < 0")
    case False
    have "t div Precision \<le> (r * Precision) div Precision"
      using assms unfolding ToDec_def by (intro zdiv_mono1 P)
    then show ?thesis using False by (simp only: cancel TruncateInt_def if_False)
  next
    case True
    have "(- r) * Precision \<le> - t" using assms by (simp add: ToDec_def)
    then have "((- r) * Precision) div Precision \<le> (- t) div Precision"
      by (intro zdiv_mono1 P)
    then have "- r \<le> (- t) div Precision" by (simp only: cancel)
    then show ?thesis using True by (simp add: TruncateInt_def)
  qed
qed

subsection \<open>Order conservation\<close>

lemma updateXtoY_conserved:
  assumes "updateXtoY m v = Inr v'" and "orders v (BatchMsg m) = Some b"
    and "Amount (RemainingOfferCoin b) + Amount (ExchangedOfferCoin b) \<le> Amount (OfferCoin (Msg b))"
    and "TransactedCoinAmt m \<le> ToDec (Amount (RemainingOfferCoin b))"
  shows "\<exists>b'. orders v' (BatchMsg m) = Some b' \<and> Msg b' = Msg b \<and>
           Amount (RemainingOfferCoin b') + Amount (ExchangedOfferCoin b') \<le> Amount (OfferCoin (Msg b'))"
  using assms(1-3) TruncateInt_le[OF assms(4)]
  by (auto simp: updateXtoY_def Let_def coin_defs remainingNotMatched_def
      split: MatchClass.splits sum.splits if_splits)

lemma updateYtoX_conserved:
  assumes "updateYtoX m v = Inr v'" and "orders v (BatchMsg m) = Some b"
    and "Amount (RemainingOfferCoin b) + Amount (ExchangedOfferCoin b) \<le> Amount (OfferCoin (Msg b))"
    and "TransactedCoinAmt m \<le> ToDec (Amount (RemainingOfferCoin b))"
  shows "\<exists>b'. orders v' (BatchMsg m) = Some b' \<and> Msg b' = Msg b \<and>
           Amount (RemainingOfferCoin b') + Amount (ExchangedOfferCoin b') \<le> Amount (OfferCoin (Msg b'))"
  using assms(1-3) TruncateInt_le[OF assms(4)]
  by (auto simp: updateYtoX_def Let_def coin_defs remainingNotMatched_def
      split: MatchClass.splits sum.splits if_splits)

subsection \<open>The full and the off-by-one branches\<close>

text \<open>
  What an iteration that does not abort leaves behind when it did not take the
  fractional branch: the order it has written, the decimal errors, and what the
  check before the write has let through.
\<close>

lemma updateXtoY_settled:
  assumes "updateXtoY m v = Inr v'" and "orders v (BatchMsg m) = Some b"
    and "classify b m \<noteq> FractionalMatch"
  shows "orders v' = (orders v)(BatchMsg m \<mapsto>
           b\<lparr>ExchangedOfferCoin :=
                \<lparr>Denom = Denom (ExchangedOfferCoin b),
                 Amount = Amount (ExchangedOfferCoin b) + TruncateInt (TransactedCoinAmt m)\<rparr>,
             RemainingOfferCoin := \<lparr>Denom = Denom (OfferCoin (Msg b)), Amount = 0\<rparr>,
             ReservedOfferCoinFee :=
               CoinSafeSubAmount (ReservedOfferCoinFee b) (TruncateInt (OfferCoinFeeAmt m)),
             Succeeded := True, ToBeDeleted := True\<rparr>) \<and>
         decimalErrorX v' =
           decimalErrorX v + (if classify b m = OffByOneDecimal then OneDec else 0) \<and>
         decimalErrorY v' = decimalErrorY v \<and>
         Amount (CoinSafeSubAmount (RemainingOfferCoin b) (TruncateInt (TransactedCoinAmt m)))
           \<in> (if classify b m = OffByOneDecimal then {0, 1} else {0}) \<and>
         Amount (CoinSafeSubAmount (ReservedOfferCoinFee b) (TruncateInt (OfferCoinFeeAmt m))) \<le> 1 \<and>
         Amount (ExchangedOfferCoin b) + TruncateInt (TransactedCoinAmt m) \<le> Amount (OfferCoin (Msg b))"
  using assms
  by (auto simp: updateXtoY_def Let_def NewCoin_def CoinAdd_def DecAdd_def
      remainingNotMatched_def
      split: MatchClass.splits sum.splits if_splits)

lemma updateYtoX_settled:
  assumes "updateYtoX m v = Inr v'" and "orders v (BatchMsg m) = Some b"
    and "classify b m \<noteq> FractionalMatch"
  shows "orders v' = (orders v)(BatchMsg m \<mapsto>
           b\<lparr>ExchangedOfferCoin :=
                \<lparr>Denom = Denom (ExchangedOfferCoin b),
                 Amount = Amount (ExchangedOfferCoin b) + TruncateInt (TransactedCoinAmt m)\<rparr>,
             RemainingOfferCoin := \<lparr>Denom = Denom (OfferCoin (Msg b)), Amount = 0\<rparr>,
             ReservedOfferCoinFee :=
               CoinSafeSubAmount (ReservedOfferCoinFee b) (TruncateInt (OfferCoinFeeAmt m)),
             Succeeded := True, ToBeDeleted := True\<rparr>) \<and>
         decimalErrorY v' =
           decimalErrorY v + (if classify b m = OffByOneDecimal then OneDec else 0) \<and>
         decimalErrorX v' = decimalErrorX v \<and>
         Amount (CoinSafeSubAmount (RemainingOfferCoin b) (TruncateInt (TransactedCoinAmt m)))
           \<in> (if classify b m = OffByOneDecimal then {0, 1} else {0}) \<and>
         Amount (CoinSafeSubAmount (ReservedOfferCoinFee b) (TruncateInt (OfferCoinFeeAmt m))) \<le> 1 \<and>
         Amount (ExchangedOfferCoin b) + TruncateInt (TransactedCoinAmt m) \<le> Amount (OfferCoin (Msg b))"
  using assms
  by (auto simp: updateYtoX_def Let_def NewCoin_def CoinAdd_def DecAdd_def
      remainingNotMatched_def
      split: MatchClass.splits sum.splits if_splits)

lemma classify_FullMatch:
  "classify b m = FullMatch \<longleftrightarrow>
     ToDec (Amount (OfferCoin (Msg b))) = TransactedCoinAmt m \<or>
     ToDec (Amount (RemainingOfferCoin b)) = TransactedCoinAmt m"
  by (simp add: classify_def)


subsection \<open>The off-by-one branch\<close>











section \<open>The pool deltas of \<^verbatim>\<open>UpdateState\<close>\<close>

lemma updateXtoY_deltas:
  assumes "updateXtoY m v = Inr v'"
  shows "poolXdelta v' = poolXdelta v + TransactedCoinAmt m \<and>
         poolYdelta v' = poolYdelta v - ExchangedDemandCoinAmt m"
  using assms
  by (auto simp: updateXtoY_def Let_def DecAdd_def DecSub_def
      split: option.splits MatchClass.splits sum.splits if_splits)

lemma updateYtoX_deltas:
  assumes "updateYtoX m v = Inr v'"
  shows "poolXdelta v' = poolXdelta v - ExchangedDemandCoinAmt m \<and>
         poolYdelta v' = poolYdelta v + TransactedCoinAmt m"
  using assms
  by (auto simp: updateYtoX_def Let_def DecAdd_def DecSub_def
      split: option.splits MatchClass.splits sum.splits if_splits)

lemma updateAllXtoY_deltas:
  "updateAllXtoY ms v = Inr v' \<Longrightarrow>
     poolXdelta v' = poolXdelta v + sum_list (map TransactedCoinAmt ms) \<and>
     poolYdelta v' = poolYdelta v - sum_list (map ExchangedDemandCoinAmt ms)"
proof (induction ms arbitrary: v)
  case Nil
  then show ?case by simp
next
  case (Cons m ms)
  from Cons.prems obtain v1 where step: "updateXtoY m v = Inr v1"
    and rest: "updateAllXtoY ms v1 = Inr v'"
    by (auto split: sum.splits)
  from Cons.IH[OF rest] updateXtoY_deltas[OF step] show ?case by simp
qed

lemma updateAllYtoX_deltas:
  "updateAllYtoX ms v = Inr v' \<Longrightarrow>
     poolXdelta v' = poolXdelta v - sum_list (map ExchangedDemandCoinAmt ms) \<and>
     poolYdelta v' = poolYdelta v + sum_list (map TransactedCoinAmt ms)"
proof (induction ms arbitrary: v)
  case Nil
  then show ?case by simp
next
  case (Cons m ms)
  from Cons.prems obtain v1 where step: "updateYtoX m v = Inr v1"
    and rest: "updateAllYtoX ms v1 = Inr v'"
    by (auto split: sum.splits)
  from Cons.IH[OF rest] updateYtoX_deltas[OF step] show ?case by simp
qed

text \<open>
  C5. The pool deltas. When \<^verbatim>\<open>UpdateState\<close> returns, the \<open>x\<close> delta it returns is the
  sum of the transacted amounts of the XtoY fills, minus the sum of the exchanged
  demand amounts of the YtoX fills, plus the decimal error \<open>x\<close> it returns; the \<open>y\<close>
  delta is the sum of the transacted amounts of the YtoX fills, minus the sum of the
  exchanged demand amounts of the XtoY fills, plus the decimal error \<open>y\<close>; and the
  reserves it returns are \<open>X + poolXdelta\<close> and \<open>Y + poolYdelta\<close>.
\<close>

theorem pool_deltas:
  assumes "UpdateState X Y XtoY YtoX matchResultXtoY matchResultYtoX h =
             Inr (XtoY', YtoX', X', Y', v)"
  shows "poolXdelta v = sum_list (map TransactedCoinAmt matchResultXtoY)
                        - sum_list (map ExchangedDemandCoinAmt matchResultYtoX) + decimalErrorX v \<and>
         poolYdelta v = sum_list (map TransactedCoinAmt matchResultYtoX)
                        - sum_list (map ExchangedDemandCoinAmt matchResultXtoY) + decimalErrorY v \<and>
         X' = X + poolXdelta v \<and> Y' = Y + poolYdelta v"
proof -
  from assms obtain v1 v2 where
    xs: "updateAllXtoY matchResultXtoY (initialVars h) = Inr v1" and
    ys: "updateAllYtoX matchResultYtoX v1 = Inr v2" and
    v: "v = v2\<lparr>poolXdelta := poolXdelta v2 + decimalErrorX v2,
               poolYdelta := poolYdelta v2 + decimalErrorY v2\<rparr>" and
    X': "X' = X + (poolXdelta v2 + decimalErrorX v2)" and
    Y': "Y' = Y + (poolYdelta v2 + decimalErrorY v2)"
    by (auto simp: UpdateState_def Let_def DecAdd_def split: sum.splits)
  from updateAllXtoY_deltas[OF xs] updateAllYtoX_deltas[OF ys] v X' Y'
  show ?thesis by (simp add: initialVars_def ZeroDec_def)
qed

text \<open>
  Reserves of 1000 and 1000; an XtoY fill of 9 of an order of 10 (off by one) for
  a demand of 9, and a YtoX fill of all of an order of 20 for a demand of 19. The
  deltas are \<open>9 - 19 + 1\<close> and \<open>20 - 9 + 0\<close>.
\<close>

lemma example_UpdateState:
  "UpdateState (ToDec 1000) (ToDec 1000) [0] [1]
      [exampleFill 9000000000000000000 9000000000000000000 0] [exampleFillY] exampleStore =
   Inr ([0], [1], ToDec 991, ToDec 1011,
        \<lparr>orders = [0 \<mapsto> (exampleOrder 10 0 9 1)\<lparr>Succeeded := True, ToBeDeleted := True\<rparr>,
                   1 \<mapsto> (exampleOrder 20 0 20 0)\<lparr>MsgIndex := 2, Succeeded := True,
                                                    ToBeDeleted := True\<rparr>],
         poolXdelta = - 9000000000000000000, poolYdelta = 11000000000000000000,
         matchedIndexMapXtoY = Map.empty, matchedIndexMapYtoX = Map.empty,
         fractionalCntX = 0, fractionalCntY = 0,
         decimalErrorX = OneDec, decimalErrorY = ZeroDec\<rparr>)"
  by (simp add: UpdateState_def sortSliceStable_def updateXtoY_def updateYtoX_def classify_def
      remainingNotMatched_def example_defs dec_defs coin_defs Let_def fun_upd_twist)

theorem pool_deltas_witness:
  "UpdateState (ToDec 1000) (ToDec 1000) [0] [1]
      [exampleFill 9000000000000000000 9000000000000000000 0] [exampleFillY] exampleStore =
   Inr ([0], [1], ToDec 991, ToDec 1011,
        \<lparr>orders = [0 \<mapsto> (exampleOrder 10 0 9 1)\<lparr>Succeeded := True, ToBeDeleted := True\<rparr>,
                   1 \<mapsto> (exampleOrder 20 0 20 0)\<lparr>MsgIndex := 2, Succeeded := True,
                                                    ToBeDeleted := True\<rparr>],
         poolXdelta = - 9000000000000000000, poolYdelta = 11000000000000000000,
         matchedIndexMapXtoY = Map.empty, matchedIndexMapYtoX = Map.empty,
         fractionalCntX = 0, fractionalCntY = 0,
         decimalErrorX = OneDec, decimalErrorY = ZeroDec\<rparr>) \<and>
   - 9000000000000000000 =
      sum_list (map TransactedCoinAmt [exampleFill 9000000000000000000 9000000000000000000 0])
      - sum_list (map ExchangedDemandCoinAmt [exampleFillY]) + OneDec \<and>
   11000000000000000000 =
      sum_list (map TransactedCoinAmt [exampleFillY])
      - sum_list (map ExchangedDemandCoinAmt [exampleFill 9000000000000000000 9000000000000000000 0])
      + ZeroDec \<and>
   ToDec 991 = ToDec 1000 + - 9000000000000000000 \<and>
   ToDec 1011 = ToDec 1000 + 11000000000000000000"
  using pool_deltas[OF example_UpdateState] example_UpdateState by simp


section \<open>The whole run of \<^verbatim>\<open>UpdateState\<close>\<close>

text \<open>
  An iteration reads and writes the one order its match result points to, and
  several match results of a run may point to one order: the loops do not check
  that they do not. What holds of an order when \<^verbatim>\<open>UpdateState\<close> returns is followed
  through every iteration of both loops.
\<close>

lemma updateXtoY_frame:
  "updateXtoY m v = Inr v' \<Longrightarrow> p \<noteq> BatchMsg m \<Longrightarrow> orders v' p = orders v p"
  by (auto simp: updateXtoY_def Let_def split: option.splits MatchClass.splits sum.splits if_splits)

lemma updateYtoX_frame:
  "updateYtoX m v = Inr v' \<Longrightarrow> p \<noteq> BatchMsg m \<Longrightarrow> orders v' p = orders v p"
  by (auto simp: updateYtoX_def Let_def split: option.splits MatchClass.splits sum.splits if_splits)

lemma updateAllXtoY_frame:
  "updateAllXtoY ms v = Inr v' \<Longrightarrow> p \<notin> BatchMsg ` set ms \<Longrightarrow> orders v' p = orders v p"
proof (induction ms arbitrary: v)
  case Nil
  then show ?case by simp
next
  case (Cons m ms)
  from Cons.prems(1) obtain v1 where step: "updateXtoY m v = Inr v1"
    and rest: "updateAllXtoY ms v1 = Inr v'"
    by (auto split: sum.splits)
  from Cons.prems(2) have "p \<noteq> BatchMsg m" and "p \<notin> BatchMsg ` set ms" by auto
  with Cons.IH[OF rest] updateXtoY_frame[OF step] show ?case by simp
qed

lemma updateAllYtoX_frame:
  "updateAllYtoX ms v = Inr v' \<Longrightarrow> p \<notin> BatchMsg ` set ms \<Longrightarrow> orders v' p = orders v p"
proof (induction ms arbitrary: v)
  case Nil
  then show ?case by simp
next
  case (Cons m ms)
  from Cons.prems(1) obtain v1 where step: "updateYtoX m v = Inr v1"
    and rest: "updateAllYtoX ms v1 = Inr v'"
    by (auto split: sum.splits)
  from Cons.prems(2) have "p \<noteq> BatchMsg m" and "p \<notin> BatchMsg ` set ms" by auto
  with Cons.IH[OF rest] updateYtoX_frame[OF step] show ?case by simp
qed

lemma updateAllXtoY_split:
  "updateAllXtoY (pre @ m # post) v = Inr v' \<Longrightarrow>
     \<exists>v1 v2. updateAllXtoY pre v = Inr v1 \<and> updateXtoY m v1 = Inr v2 \<and>
             updateAllXtoY post v2 = Inr v'"
  by (induction pre arbitrary: v) (auto split: sum.splits)

lemma updateAllYtoX_split:
  "updateAllYtoX (pre @ m # post) v = Inr v' \<Longrightarrow>
     \<exists>v1 v2. updateAllYtoX pre v = Inr v1 \<and> updateYtoX m v1 = Inr v2 \<and>
             updateAllYtoX post v2 = Inr v'"
  by (induction pre arbitrary: v) (auto split: sum.splits)

lemma UpdateState_loops:
  assumes "UpdateState X Y XtoY YtoX mX mY h = Inr (XtoY', YtoX', X', Y', v)"
  shows "\<exists>w0 w1. updateAllXtoY mX (initialVars h) = Inr w0 \<and> updateAllYtoX mY w0 = Inr w1 \<and>
                 orders v = orders w1"
  using assms by (auto simp: UpdateState_def Let_def split: sum.splits)


subsection \<open>Order conservation after \<^verbatim>\<open>UpdateState\<close>\<close>

lemma updateAllXtoY_conserves_at:
  assumes "updateAllXtoY ms v = Inr v'"
    and "orders v p = Some b"
    and "Amount (RemainingOfferCoin b) + Amount (ExchangedOfferCoin b) \<le> Amount (OfferCoin (Msg b))"
    and "\<And>pre m post v1 b1. ms = pre @ m # post \<Longrightarrow> BatchMsg m = p \<Longrightarrow>
           updateAllXtoY pre v = Inr v1 \<Longrightarrow> orders v1 p = Some b1 \<Longrightarrow>
           TransactedCoinAmt m \<le> ToDec (Amount (RemainingOfferCoin b1))"
  shows "\<exists>b'. orders v' p = Some b' \<and> Msg b' = Msg b \<and>
           Amount (RemainingOfferCoin b') + Amount (ExchangedOfferCoin b') \<le> Amount (OfferCoin (Msg b'))"
  using assms
proof (induction ms arbitrary: v b)
  case Nil
  then show ?case by simp
next
  case (Cons m ms)
  from Cons.prems(1) obtain v1 where step: "updateXtoY m v = Inr v1"
    and rest: "updateAllXtoY ms v1 = Inr v'"
    by (auto split: sum.splits)
  have "\<exists>b1. orders v1 p = Some b1 \<and> Msg b1 = Msg b \<and>
          Amount (RemainingOfferCoin b1) + Amount (ExchangedOfferCoin b1) \<le> Amount (OfferCoin (Msg b1))"
  proof (cases "BatchMsg m = p")
    case True
    have "TransactedCoinAmt m \<le> ToDec (Amount (RemainingOfferCoin b))"
      by (rule Cons.prems(4)[of "[]" m ms v b]) (simp_all add: True Cons.prems(2))
    from updateXtoY_conserved[OF step Cons.prems(2)[folded True] Cons.prems(3) this] True
    show ?thesis by simp
  next
    case False
    then have "orders v1 p = orders v p" using updateXtoY_frame[OF step] by simp
    with Cons.prems(2,3) show ?thesis by simp
  qed
  then obtain b1 where b1: "orders v1 p = Some b1" and m1: "Msg b1 = Msg b"
    and c1: "Amount (RemainingOfferCoin b1) + Amount (ExchangedOfferCoin b1) \<le> Amount (OfferCoin (Msg b1))"
    by blast
  have later: "TransactedCoinAmt m' \<le> ToDec (Amount (RemainingOfferCoin b2))"
    if "ms = pre @ m' # post" "BatchMsg m' = p" "updateAllXtoY pre v1 = Inr v2" "orders v2 p = Some b2"
    for pre m' post v2 b2
    by (rule Cons.prems(4)[of "m # pre" m' post v2 b2]) (simp_all add: that step)
  from Cons.IH[OF rest b1 c1 later] m1 show ?case by simp
qed

lemma updateAllYtoX_conserves_at:
  assumes "updateAllYtoX ms v = Inr v'"
    and "orders v p = Some b"
    and "Amount (RemainingOfferCoin b) + Amount (ExchangedOfferCoin b) \<le> Amount (OfferCoin (Msg b))"
    and "\<And>pre m post v1 b1. ms = pre @ m # post \<Longrightarrow> BatchMsg m = p \<Longrightarrow>
           updateAllYtoX pre v = Inr v1 \<Longrightarrow> orders v1 p = Some b1 \<Longrightarrow>
           TransactedCoinAmt m \<le> ToDec (Amount (RemainingOfferCoin b1))"
  shows "\<exists>b'. orders v' p = Some b' \<and> Msg b' = Msg b \<and>
           Amount (RemainingOfferCoin b') + Amount (ExchangedOfferCoin b') \<le> Amount (OfferCoin (Msg b'))"
  using assms
proof (induction ms arbitrary: v b)
  case Nil
  then show ?case by simp
next
  case (Cons m ms)
  from Cons.prems(1) obtain v1 where step: "updateYtoX m v = Inr v1"
    and rest: "updateAllYtoX ms v1 = Inr v'"
    by (auto split: sum.splits)
  have "\<exists>b1. orders v1 p = Some b1 \<and> Msg b1 = Msg b \<and>
          Amount (RemainingOfferCoin b1) + Amount (ExchangedOfferCoin b1) \<le> Amount (OfferCoin (Msg b1))"
  proof (cases "BatchMsg m = p")
    case True
    have "TransactedCoinAmt m \<le> ToDec (Amount (RemainingOfferCoin b))"
      by (rule Cons.prems(4)[of "[]" m ms v b]) (simp_all add: True Cons.prems(2))
    from updateYtoX_conserved[OF step Cons.prems(2)[folded True] Cons.prems(3) this] True
    show ?thesis by simp
  next
    case False
    then have "orders v1 p = orders v p" using updateYtoX_frame[OF step] by simp
    with Cons.prems(2,3) show ?thesis by simp
  qed
  then obtain b1 where b1: "orders v1 p = Some b1" and m1: "Msg b1 = Msg b"
    and c1: "Amount (RemainingOfferCoin b1) + Amount (ExchangedOfferCoin b1) \<le> Amount (OfferCoin (Msg b1))"
    by blast
  have later: "TransactedCoinAmt m' \<le> ToDec (Amount (RemainingOfferCoin b2))"
    if "ms = pre @ m' # post" "BatchMsg m' = p" "updateAllYtoX pre v1 = Inr v2" "orders v2 p = Some b2"
    for pre m' post v2 b2
    by (rule Cons.prems(4)[of "m # pre" m' post v2 b2]) (simp_all add: that step)
  from Cons.IH[OF rest b1 c1 later] m1 show ?case by simp
qed

text \<open>
  C2 (amended). Order conservation. Take a run of \<^verbatim>\<open>UpdateState\<close> that does not
  abort, and an order that satisfies \<open>remaining + exchanged \<le> original offer amount\<close>
  when \<^verbatim>\<open>UpdateState\<close> is called. If every match result of the run that points to
  the order transacts, when its iteration starts, at most the remaining offer the
  order has at that moment (as decimals), then the order satisfies
  \<open>remaining + exchanged \<le> original offer amount\<close> when \<^verbatim>\<open>UpdateState\<close> returns. No
  branch is assumed: the fractional branch, which checks nothing, is covered as the
  full and the off-by-one branches are. Any number of match results, on either
  side, may point to the order. The original offer is not touched.
\<close>

theorem order_conservation:
  assumes run: "UpdateState X Y XtoY YtoX matchResultXtoY matchResultYtoX h =
                  Inr (XtoY', YtoX', X', Y', v)"
    and held: "h p = Some b"
    and before: "Amount (RemainingOfferCoin b) + Amount (ExchangedOfferCoin b)
                   \<le> Amount (OfferCoin (Msg b))"
    and xs: "\<forall>pre match post v1 b1.
               matchResultXtoY = pre @ match # post \<and> BatchMsg match = p \<and>
               updateAllXtoY pre (initialVars h) = Inr v1 \<and> orders v1 p = Some b1 \<longrightarrow>
               TransactedCoinAmt match \<le> ToDec (Amount (RemainingOfferCoin b1))"
    and ys: "\<forall>w pre match post v1 b1.
               updateAllXtoY matchResultXtoY (initialVars h) = Inr w \<and>
               matchResultYtoX = pre @ match # post \<and> BatchMsg match = p \<and>
               updateAllYtoX pre w = Inr v1 \<and> orders v1 p = Some b1 \<longrightarrow>
               TransactedCoinAmt match \<le> ToDec (Amount (RemainingOfferCoin b1))"
  shows "\<exists>b'. orders v p = Some b' \<and> Msg b' = Msg b \<and>
           Amount (RemainingOfferCoin b') + Amount (ExchangedOfferCoin b')
             \<le> Amount (OfferCoin (Msg b'))"
proof -
  from UpdateState_loops[OF run] obtain w0 w1 where
    lx: "updateAllXtoY matchResultXtoY (initialVars h) = Inr w0" and
    ly: "updateAllYtoX matchResultYtoX w0 = Inr w1" and v: "orders v = orders w1"
    by blast
  have h0: "orders (initialVars h) p = Some b" using held by (simp add: initialVars_def)
  have "\<exists>b0. orders w0 p = Some b0 \<and> Msg b0 = Msg b \<and>
          Amount (RemainingOfferCoin b0) + Amount (ExchangedOfferCoin b0) \<le> Amount (OfferCoin (Msg b0))"
    using xs by (intro updateAllXtoY_conserves_at[OF lx h0 before]) blast
  then obtain b0 where b0: "orders w0 p = Some b0" and m0: "Msg b0 = Msg b"
    and c0: "Amount (RemainingOfferCoin b0) + Amount (ExchangedOfferCoin b0) \<le> Amount (OfferCoin (Msg b0))"
    by blast
  have "\<exists>b'. orders w1 p = Some b' \<and> Msg b' = Msg b0 \<and>
          Amount (RemainingOfferCoin b') + Amount (ExchangedOfferCoin b') \<le> Amount (OfferCoin (Msg b'))"
    using ys lx by (intro updateAllYtoX_conserves_at[OF ly b0 c0]) blast
  with v m0 show ?thesis by simp
qed

lemmas update_defs =
  UpdateState_def sortSliceStable_def updateXtoY_def updateYtoX_def classify_def
  remainingNotMatched_def

text \<open>
  Two fractional fills of 4 of one order of 10: the second meets the 6 that the
  first has left. The order is left with 2 remaining and 8 exchanged.
\<close>

lemma example_two_fractional:
  "UpdateState (ToDec 1000) (ToDec 1000) [0] []
      [exampleFill 4000000000000000000 4000000000000000000 0,
       exampleFill 4000000000000000000 4000000000000000000 0] []
      [0 \<mapsto> exampleOrder 10 10 0 1] =
   Inr ([0], [], ToDec 1008, ToDec 992,
        \<lparr>orders = [0 \<mapsto> (exampleOrder 10 2 8 1)\<lparr>Succeeded := True\<rparr>],
         poolXdelta = 8000000000000000000, poolYdelta = - 8000000000000000000,
         matchedIndexMapXtoY = [1 \<mapsto> \<lparr>Denom = ''x'', Amount = 2\<rparr>],
         matchedIndexMapYtoX = Map.empty,
         fractionalCntX = 2, fractionalCntY = 0,
         decimalErrorX = ZeroDec, decimalErrorY = ZeroDec\<rparr>)"
  by (simp add: update_defs example_defs dec_defs coin_defs Let_def)

lemma example_first_fractional:
  "updateAllXtoY [exampleFill 4000000000000000000 4000000000000000000 0]
      (initialVars [0 \<mapsto> exampleOrder 10 10 0 1]) =
   Inr ((initialVars [0 \<mapsto> (exampleOrder 10 6 4 1)\<lparr>Succeeded := True\<rparr>])
       \<lparr>poolXdelta := 4000000000000000000, poolYdelta := - 4000000000000000000,
        matchedIndexMapXtoY := [1 \<mapsto> \<lparr>Denom = ''x'', Amount = 6\<rparr>], fractionalCntX := 1\<rparr>)"
  by (simp add: update_defs example_defs dec_defs coin_defs Let_def)

theorem order_conservation_witness:
  "UpdateState (ToDec 1000) (ToDec 1000) [0] []
      [exampleFill 4000000000000000000 4000000000000000000 0,
       exampleFill 4000000000000000000 4000000000000000000 0] []
      [0 \<mapsto> exampleOrder 10 10 0 1] =
   Inr ([0], [], ToDec 1008, ToDec 992,
        \<lparr>orders = [0 \<mapsto> (exampleOrder 10 2 8 1)\<lparr>Succeeded := True\<rparr>],
         poolXdelta = 8000000000000000000, poolYdelta = - 8000000000000000000,
         matchedIndexMapXtoY = [1 \<mapsto> \<lparr>Denom = ''x'', Amount = 2\<rparr>],
         matchedIndexMapYtoX = Map.empty,
         fractionalCntX = 2, fractionalCntY = 0,
         decimalErrorX = ZeroDec, decimalErrorY = ZeroDec\<rparr>) \<and>
   classify (exampleOrder 10 10 0 1) (exampleFill 4000000000000000000 4000000000000000000 0)
     = FractionalMatch \<and>
   classify ((exampleOrder 10 6 4 1)\<lparr>Succeeded := True\<rparr>)
      (exampleFill 4000000000000000000 4000000000000000000 0) = FractionalMatch \<and>
   4000000000000000000 \<le> ToDec 10 \<and> 4000000000000000000 \<le> ToDec 6 \<and>
   (10::int) + 0 \<le> 10 \<and>
   (\<exists>b'. [0 \<mapsto> (exampleOrder 10 2 8 1)\<lparr>Succeeded := True\<rparr>] 0 = Some b' \<and>
      Msg b' = Msg (exampleOrder 10 10 0 1) \<and>
      Amount (RemainingOfferCoin b') + Amount (ExchangedOfferCoin b') \<le> Amount (OfferCoin (Msg b')))"
proof -
  let ?f = "exampleFill 4000000000000000000 4000000000000000000 0"
  let ?b = "exampleOrder 10 10 0 1"
  let ?h = "[0 \<mapsto> ?b]"
  let ?v = "\<lparr>orders = [0 \<mapsto> (exampleOrder 10 2 8 1)\<lparr>Succeeded := True\<rparr>],
         poolXdelta = 8000000000000000000, poolYdelta = - 8000000000000000000,
         matchedIndexMapXtoY = [1 \<mapsto> \<lparr>Denom = ''x'', Amount = 2\<rparr>],
         matchedIndexMapYtoX = Map.empty,
         fractionalCntX = 2, fractionalCntY = 0,
         decimalErrorX = ZeroDec, decimalErrorY = ZeroDec\<rparr>"
  have held: "?h 0 = Some ?b" by simp
  have before: "Amount (RemainingOfferCoin ?b) + Amount (ExchangedOfferCoin ?b)
                   \<le> Amount (OfferCoin (Msg ?b))"
    by (simp add: exampleOrder_def)
  have xs: "\<forall>pre match post v1 b1.
               [?f, ?f] = pre @ match # post \<and> BatchMsg match = 0 \<and>
               updateAllXtoY pre (initialVars ?h) = Inr v1 \<and> orders v1 0 = Some b1 \<longrightarrow>
               TransactedCoinAmt match \<le> ToDec (Amount (RemainingOfferCoin b1))"
  proof (intro allI impI, elim conjE)
    fix pre match post v1 b1
    assume l: "[?f, ?f] = pre @ match # post"
      and r: "updateAllXtoY pre (initialVars ?h) = Inr v1" and o: "orders v1 0 = Some b1"
    from l consider "pre = []" "match = ?f" | "pre = [?f]" "match = ?f"
      by (auto simp: Cons_eq_append_conv)
    then show "TransactedCoinAmt match \<le> ToDec (Amount (RemainingOfferCoin b1))"
    proof cases
      case 1
      with r o show ?thesis by (auto simp: example_defs dec_defs)
    next
      case 2
      from r 2 have "updateAllXtoY [?f] (initialVars ?h) = Inr v1" by (simp only:)
      then have "v1 = (initialVars [0 \<mapsto> (exampleOrder 10 6 4 1)\<lparr>Succeeded := True\<rparr>])
          \<lparr>poolXdelta := 4000000000000000000, poolYdelta := - 4000000000000000000,
           matchedIndexMapXtoY := [1 \<mapsto> \<lparr>Denom = ''x'', Amount = 6\<rparr>], fractionalCntX := 1\<rparr>"
        by (simp only: example_first_fractional sum.inject)
      with o have "b1 = (exampleOrder 10 6 4 1)\<lparr>Succeeded := True\<rparr>"
        by (simp add: initialVars_def)
      with 2 show ?thesis by (simp add: example_defs dec_defs)
    qed
  qed
  have ys: "\<forall>w pre match post v1 b1.
               updateAllXtoY [?f, ?f] (initialVars ?h) = Inr w \<and>
               [] = pre @ match # post \<and> BatchMsg match = 0 \<and>
               updateAllYtoX pre w = Inr v1 \<and> orders v1 0 = Some b1 \<longrightarrow>
               TransactedCoinAmt match \<le> ToDec (Amount (RemainingOfferCoin b1))"
    by simp
  from order_conservation[OF example_two_fractional held before xs ys]
  have "\<exists>b'. orders ?v 0 = Some b' \<and> Msg b' = Msg ?b \<and>
           Amount (RemainingOfferCoin b') + Amount (ExchangedOfferCoin b')
             \<le> Amount (OfferCoin (Msg b'))" .
  then show ?thesis
    by (simp add: example_two_fractional) (simp add: classify_def example_defs dec_defs)
qed

text \<open>
  The bound is on the remaining offer of the moment, not on the one the order has
  when \<^verbatim>\<open>UpdateState\<close> is called. Two fills of 6 of one order of 10 are each at
  most the 10 remaining at the call; both take the fractional branch, the
  subtraction of the second stops at zero, and \<^verbatim>\<open>UpdateState\<close> returns with
  0 remaining and 12 exchanged.
\<close>

theorem order_conservation_counterexample:
  "6000000000000000000 \<le> ToDec (Amount (RemainingOfferCoin (exampleOrder 10 10 0 1))) \<and>
   Amount (RemainingOfferCoin (exampleOrder 10 10 0 1)) +
     Amount (ExchangedOfferCoin (exampleOrder 10 10 0 1))
     \<le> Amount (OfferCoin (Msg (exampleOrder 10 10 0 1))) \<and>
   UpdateState (ToDec 1000) (ToDec 1000) [0] []
      [exampleFill 6000000000000000000 6000000000000000000 0,
       exampleFill 6000000000000000000 6000000000000000000 0] []
      [0 \<mapsto> exampleOrder 10 10 0 1] =
   Inr ([0], [], ToDec 1012, ToDec 988,
        \<lparr>orders = [0 \<mapsto> (exampleOrder 10 0 12 1)\<lparr>Succeeded := True\<rparr>],
         poolXdelta = 12000000000000000000, poolYdelta = - 12000000000000000000,
         matchedIndexMapXtoY = [1 \<mapsto> \<lparr>Denom = ''x'', Amount = 0\<rparr>],
         matchedIndexMapYtoX = Map.empty,
         fractionalCntX = 2, fractionalCntY = 0,
         decimalErrorX = ZeroDec, decimalErrorY = ZeroDec\<rparr>) \<and>
   Amount (OfferCoin (Msg ((exampleOrder 10 0 12 1)\<lparr>Succeeded := True\<rparr>))) <
     Amount (RemainingOfferCoin ((exampleOrder 10 0 12 1)\<lparr>Succeeded := True\<rparr>)) +
     Amount (ExchangedOfferCoin ((exampleOrder 10 0 12 1)\<lparr>Succeeded := True\<rparr>))"
  by (simp add: update_defs example_defs dec_defs coin_defs Let_def)


subsection \<open>Full matches after \<^verbatim>\<open>UpdateState\<close>\<close>

text \<open>
  C3 (amended). The full-match branch. Take a run of \<^verbatim>\<open>UpdateState\<close> that does not
  abort, and a match result of it, on either side, for which the branch condition
  of lines 137-138 (188-189) holds when its iteration starts: the transacted amount
  equals, as a decimal, the original offer amount or the remaining offer of its
  order. If no later match result of the run points to the same order, then when
  \<^verbatim>\<open>UpdateState\<close> returns the remaining offer coin of the order is the zero coin of
  the offer denomination, its reserved offer coin fee is at most 1, and \<open>Succeeded\<close>
  and \<open>ToBeDeleted\<close> are both true.
\<close>

theorem full_match_settled:
  assumes run: "UpdateState X Y XtoY YtoX matchResultXtoY matchResultYtoX h =
                  Inr (XtoY', YtoX', X', Y', v)"
    and at: "(matchResultXtoY = pre @ match # post \<and>
              updateAllXtoY pre (initialVars h) = Inr v1 \<and>
              BatchMsg match \<notin> BatchMsg ` set (post @ matchResultYtoX)) \<or>
             (updateAllXtoY matchResultXtoY (initialVars h) = Inr w \<and>
              matchResultYtoX = pre @ match # post \<and>
              updateAllYtoX pre w = Inr v1 \<and>
              BatchMsg match \<notin> BatchMsg ` set post)"
    and held: "orders v1 (BatchMsg match) = Some b"
    and full: "ToDec (Amount (OfferCoin (Msg b))) = TransactedCoinAmt match \<or>
               ToDec (Amount (RemainingOfferCoin b)) = TransactedCoinAmt match"
  shows "\<exists>b'. orders v (BatchMsg match) = Some b' \<and>
           RemainingOfferCoin b' = \<lparr>Denom = Denom (OfferCoin (Msg b)), Amount = 0\<rparr> \<and>
           Amount (ReservedOfferCoinFee b') \<le> 1 \<and> Succeeded b' \<and> ToBeDeleted b'"
proof -
  from UpdateState_loops[OF run] obtain w0 w1 where
    lx: "updateAllXtoY matchResultXtoY (initialVars h) = Inr w0" and
    ly: "updateAllYtoX matchResultYtoX w0 = Inr w1" and v: "orders v = orders w1"
    by blast
  have "classify b match = FullMatch" using full by (simp only: classify_FullMatch)
  then have cl: "classify b match \<noteq> FractionalMatch" by simp
  from at show ?thesis
  proof (elim disjE conjE)
    assume mX: "matchResultXtoY = pre @ match # post"
      and p1: "updateAllXtoY pre (initialVars h) = Inr v1"
      and later: "BatchMsg match \<notin> BatchMsg ` set (post @ matchResultYtoX)"
    from updateAllXtoY_split[OF lx[unfolded mX]] p1 obtain v2 where
      st: "updateXtoY match v1 = Inr v2" and p2: "updateAllXtoY post v2 = Inr w0"
      by auto
    from later have npost: "BatchMsg match \<notin> BatchMsg ` set post"
      and nY: "BatchMsg match \<notin> BatchMsg ` set matchResultYtoX"
      by auto
    from updateXtoY_settled[OF st held cl] obtain b' where
      "orders v2 (BatchMsg match) = Some b'" and
      "RemainingOfferCoin b' = \<lparr>Denom = Denom (OfferCoin (Msg b)), Amount = 0\<rparr>" and
      "Amount (ReservedOfferCoinFee b') \<le> 1" and "Succeeded b'" and "ToBeDeleted b'"
      by simp
    moreover have "orders v (BatchMsg match) = orders v2 (BatchMsg match)"
      using updateAllXtoY_frame[OF p2 npost] updateAllYtoX_frame[OF ly nY] v by simp
    ultimately show ?thesis by simp
  next
    assume lw: "updateAllXtoY matchResultXtoY (initialVars h) = Inr w"
      and mY: "matchResultYtoX = pre @ match # post"
      and p1: "updateAllYtoX pre w = Inr v1"
      and npost: "BatchMsg match \<notin> BatchMsg ` set post"
    from lw lx have w: "w = w0" by simp
    from updateAllYtoX_split[OF ly[unfolded mY]] p1 w obtain v2 where
      st: "updateYtoX match v1 = Inr v2" and p2: "updateAllYtoX post v2 = Inr w1"
      by auto
    from updateYtoX_settled[OF st held cl] obtain b' where
      "orders v2 (BatchMsg match) = Some b'" and
      "RemainingOfferCoin b' = \<lparr>Denom = Denom (OfferCoin (Msg b)), Amount = 0\<rparr>" and
      "Amount (ReservedOfferCoinFee b') \<le> 1" and "Succeeded b'" and "ToBeDeleted b'"
      by simp
    moreover have "orders v (BatchMsg match) = orders v2 (BatchMsg match)"
      using updateAllYtoX_frame[OF p2 npost] v by simp
    ultimately show ?thesis by simp
  qed
qed

text \<open>
  A fractional fill of 4 of an order of 10, then a fill of the 6 that are left: the
  second takes the full-match branch, and nothing follows it.
\<close>

lemma example_fractional_then_full:
  "UpdateState (ToDec 1000) (ToDec 1000) [0] []
      [exampleFill 4000000000000000000 4000000000000000000 0,
       exampleFill 6000000000000000000 6000000000000000000 0] []
      [0 \<mapsto> exampleOrder 10 10 0 1] =
   Inr ([0], [], ToDec 1010, ToDec 990,
        \<lparr>orders = [0 \<mapsto> (exampleOrder 10 0 10 1)\<lparr>Succeeded := True, ToBeDeleted := True\<rparr>],
         poolXdelta = 10000000000000000000, poolYdelta = - 10000000000000000000,
         matchedIndexMapXtoY = [1 \<mapsto> \<lparr>Denom = ''x'', Amount = 6\<rparr>],
         matchedIndexMapYtoX = Map.empty,
         fractionalCntX = 1, fractionalCntY = 0,
         decimalErrorX = ZeroDec, decimalErrorY = ZeroDec\<rparr>)"
  by (simp add: update_defs example_defs dec_defs coin_defs Let_def)

theorem full_match_settled_witness:
  "UpdateState (ToDec 1000) (ToDec 1000) [0] []
      [exampleFill 4000000000000000000 4000000000000000000 0,
       exampleFill 6000000000000000000 6000000000000000000 0] []
      [0 \<mapsto> exampleOrder 10 10 0 1] =
   Inr ([0], [], ToDec 1010, ToDec 990,
        \<lparr>orders = [0 \<mapsto> (exampleOrder 10 0 10 1)\<lparr>Succeeded := True, ToBeDeleted := True\<rparr>],
         poolXdelta = 10000000000000000000, poolYdelta = - 10000000000000000000,
         matchedIndexMapXtoY = [1 \<mapsto> \<lparr>Denom = ''x'', Amount = 6\<rparr>],
         matchedIndexMapYtoX = Map.empty,
         fractionalCntX = 1, fractionalCntY = 0,
         decimalErrorX = ZeroDec, decimalErrorY = ZeroDec\<rparr>) \<and>
   updateAllXtoY [exampleFill 4000000000000000000 4000000000000000000 0]
      (initialVars [0 \<mapsto> exampleOrder 10 10 0 1]) =
   Inr ((initialVars [0 \<mapsto> (exampleOrder 10 6 4 1)\<lparr>Succeeded := True\<rparr>])
       \<lparr>poolXdelta := 4000000000000000000, poolYdelta := - 4000000000000000000,
        matchedIndexMapXtoY := [1 \<mapsto> \<lparr>Denom = ''x'', Amount = 6\<rparr>], fractionalCntX := 1\<rparr>) \<and>
   ToDec (Amount (RemainingOfferCoin ((exampleOrder 10 6 4 1)\<lparr>Succeeded := True\<rparr>))) =
     TransactedCoinAmt (exampleFill 6000000000000000000 6000000000000000000 0) \<and>
   (\<exists>b'. [0 \<mapsto> (exampleOrder 10 0 10 1)\<lparr>Succeeded := True, ToBeDeleted := True\<rparr>] 0 = Some b' \<and>
      RemainingOfferCoin b' = \<lparr>Denom = ''x'', Amount = 0\<rparr> \<and>
      Amount (ReservedOfferCoinFee b') \<le> 1 \<and> Succeeded b' \<and> ToBeDeleted b')"
proof -
  let ?f4 = "exampleFill 4000000000000000000 4000000000000000000 0"
  let ?f6 = "exampleFill 6000000000000000000 6000000000000000000 0"
  let ?h = "[0 \<mapsto> exampleOrder 10 10 0 1]"
  let ?b = "(exampleOrder 10 6 4 1)\<lparr>Succeeded := True\<rparr>"
  let ?v1 = "(initialVars [0 \<mapsto> ?b])
       \<lparr>poolXdelta := 4000000000000000000, poolYdelta := - 4000000000000000000,
        matchedIndexMapXtoY := [1 \<mapsto> \<lparr>Denom = ''x'', Amount = 6\<rparr>], fractionalCntX := 1\<rparr>"
  let ?v = "\<lparr>orders = [0 \<mapsto> (exampleOrder 10 0 10 1)\<lparr>Succeeded := True, ToBeDeleted := True\<rparr>],
         poolXdelta = 10000000000000000000, poolYdelta = - 10000000000000000000,
         matchedIndexMapXtoY = [1 \<mapsto> \<lparr>Denom = ''x'', Amount = 6\<rparr>],
         matchedIndexMapYtoX = Map.empty,
         fractionalCntX = 1, fractionalCntY = 0,
         decimalErrorX = ZeroDec, decimalErrorY = ZeroDec\<rparr>"
  have at: "([?f4, ?f6] = [?f4] @ ?f6 # [] \<and>
              updateAllXtoY [?f4] (initialVars ?h) = Inr ?v1 \<and>
              BatchMsg ?f6 \<notin> BatchMsg ` set ([] @ [])) \<or>
             (updateAllXtoY [?f4, ?f6] (initialVars ?h) = Inr ?v1 \<and>
              [] = [?f4] @ ?f6 # [] \<and>
              updateAllYtoX [?f4] ?v1 = Inr ?v1 \<and>
              BatchMsg ?f6 \<notin> BatchMsg ` set [])"
    using example_first_fractional by simp
  have held: "orders ?v1 (BatchMsg ?f6) = Some ?b"
    by (simp add: initialVars_def exampleFill_def)
  have full: "ToDec (Amount (OfferCoin (Msg ?b))) = TransactedCoinAmt ?f6 \<or>
               ToDec (Amount (RemainingOfferCoin ?b)) = TransactedCoinAmt ?f6"
    by (simp add: example_defs dec_defs)
  from full_match_settled[OF example_fractional_then_full at held full]
  have "\<exists>b'. orders ?v (BatchMsg ?f6) = Some b' \<and>
           RemainingOfferCoin b' = \<lparr>Denom = Denom (OfferCoin (Msg ?b)), Amount = 0\<rparr> \<and>
           Amount (ReservedOfferCoinFee b') \<le> 1 \<and> Succeeded b' \<and> ToBeDeleted b'" .
  then have settled: "\<exists>b'. [0 \<mapsto> (exampleOrder 10 0 10 1)\<lparr>Succeeded := True, ToBeDeleted := True\<rparr>] 0 = Some b' \<and>
      RemainingOfferCoin b' = \<lparr>Denom = ''x'', Amount = 0\<rparr> \<and>
      Amount (ReservedOfferCoinFee b') \<le> 1 \<and> Succeeded b' \<and> ToBeDeleted b'"
    by (simp add: example_defs)
  have at_remaining: "ToDec (Amount (RemainingOfferCoin ?b)) = TransactedCoinAmt ?f6"
    by (simp add: example_defs dec_defs)
  show ?thesis
    by (intro conjI, rule example_fractional_then_full, rule example_first_fractional,
        rule at_remaining, rule settled)
qed

text \<open>
  A later match result of the same order undoes the flag. After a full fill of 10
  of an order of 10, a fill of 0.5 of that order takes the fractional branch, which
  sets \<open>ToBeDeleted\<close> to false (line 180), and \<^verbatim>\<open>UpdateState\<close> returns.
\<close>

theorem full_match_settled_counterexample:
  "classify (exampleOrder 10 10 0 1) (exampleFill 10000000000000000000 9000000000000000000 0)
     = FullMatch \<and>
   ToDec (Amount (RemainingOfferCoin (exampleOrder 10 10 0 1))) =
     TransactedCoinAmt (exampleFill 10000000000000000000 9000000000000000000 0) \<and>
   UpdateState (ToDec 1000) (ToDec 1000) [0] []
      [exampleFill 10000000000000000000 9000000000000000000 0,
       exampleFill 500000000000000000 0 0] []
      [0 \<mapsto> exampleOrder 10 10 0 1] =
   Inr ([0], [], 1010500000000000000000, ToDec 991,
        \<lparr>orders = [0 \<mapsto> (exampleOrder 10 0 10 1)\<lparr>Succeeded := True, ToBeDeleted := False\<rparr>],
         poolXdelta = 10500000000000000000, poolYdelta = - 9000000000000000000,
         matchedIndexMapXtoY = [1 \<mapsto> \<lparr>Denom = ''x'', Amount = 0\<rparr>],
         matchedIndexMapYtoX = Map.empty,
         fractionalCntX = 1, fractionalCntY = 0,
         decimalErrorX = ZeroDec, decimalErrorY = ZeroDec\<rparr>) \<and>
   ToBeDeleted ((exampleOrder 10 0 10 1)\<lparr>Succeeded := True, ToBeDeleted := False\<rparr>) = False"
  by (simp add: update_defs example_defs dec_defs coin_defs Let_def)


section \<open>The query server\<close>

text \<open>
  C8. The handlers \<^verbatim>\<open>LiquidityPools\<close>, \<^verbatim>\<open>LiquidityPoolBatch\<close>, \<^verbatim>\<open>PoolBatchSwapMsgs\<close>,
  \<^verbatim>\<open>PoolBatchDepositMsgs\<close>, \<^verbatim>\<open>PoolBatchWithdrawMsgs\<close> and \<^verbatim>\<open>Params\<close> return a nil
  response and a nil error for every request, a nil one too, and leave the state
  as it is.
\<close>

theorem query_stubs_return_empty:
  "LiquidityPools s req1 = (s, None, None) \<and>
   LiquidityPoolBatch s req2 = (s, None, None) \<and>
   PoolBatchSwapMsgs s req3 = (s, None, None) \<and>
   PoolBatchDepositMsgs s req4 = (s, None, None) \<and>
   PoolBatchWithdrawMsgs s req5 = (s, None, None) \<and>
   Params s req6 = (s, None, None)"
  by (simp add: LiquidityPools_def LiquidityPoolBatch_def PoolBatchSwapMsgs_def
      PoolBatchDepositMsgs_def PoolBatchWithdrawMsgs_def Params_def)


text \<open>
  C10. \<^verbatim>\<open>LiquidityPool\<close> answers a nil request with an \<open>InvalidArgument\<close> error; a
  request for a pool id under which \<^verbatim>\<open>GetLiquidityPool\<close> finds nothing with a
  \<open>NotFound\<close> error, and only such a request with that code; a request for a pool id
  under which a pool is found with a response that holds that pool and a nil
  error. The state after the call is the state before it.
\<close>

theorem liquidity_pool_query:
  "LiquidityPool k s None = (s, None, Some (Errorf InvalidArgument ''empty request'' [])) \<and>
   (GetLiquidityPool k s (ReqPoolId r) = None \<longrightarrow>
      LiquidityPool k s (Some r) =
        (s, None, Some (Errorf NotFound ''liquidity pool %d doesn't exist'' [ReqPoolId r]))) \<and>
   (GetLiquidityPool k s (ReqPoolId r) = Some pl \<longrightarrow>
      LiquidityPool k s (Some r) = (s, Some \<lparr>RespLiquidityPool = pl\<rparr>, None)) \<and>
   ((\<exists>fmt args. snd (snd (LiquidityPool k s (Some r))) = Some (Errorf NotFound fmt args)) \<longleftrightarrow>
      GetLiquidityPool k s (ReqPoolId r) = None) \<and>
   fst (LiquidityPool k s req) = s"
  by (auto simp: LiquidityPool_def split: option.splits)


text \<open>The example keeper holds pool 1 and no pool 5.\<close>

theorem liquidity_pool_query_witness:
  "GetLiquidityPool (exampleKeeper 0 [] [] True) ([], 0) (ReqPoolId \<lparr>ReqPoolId = 5\<rparr>) = None \<and>
   LiquidityPool (exampleKeeper 0 [] [] True) ([], 0) (Some \<lparr>ReqPoolId = 5\<rparr>) =
     (([], 0), None, Some (Errorf NotFound ''liquidity pool %d doesn't exist'' [5])) \<and>
   GetLiquidityPool (exampleKeeper 0 [] [] True) ([], 0) (ReqPoolId \<lparr>ReqPoolId = 1\<rparr>)
     = Some \<lparr>Id = 1\<rparr> \<and>
   LiquidityPool (exampleKeeper 0 [] [] True) ([], 0) (Some \<lparr>ReqPoolId = 1\<rparr>) =
     (([], 0), Some \<lparr>RespLiquidityPool = \<lparr>Id = 1\<rparr>\<rparr>, None)"
proof -
  let ?k = "exampleKeeper 0 [] [] True"
  have none: "GetLiquidityPool ?k ([], 0) (ReqPoolId \<lparr>ReqPoolId = 5\<rparr>) = None"
    by (simp add: exampleKeeper_def)
  have some: "GetLiquidityPool ?k ([], 0) (ReqPoolId \<lparr>ReqPoolId = 1\<rparr>) = Some \<lparr>Id = 1\<rparr>"
    by (simp add: exampleKeeper_def)
  from liquidity_pool_query[of ?k "([], 0)" "\<lparr>ReqPoolId = 5\<rparr>"] none
  have a: "LiquidityPool ?k ([], 0) (Some \<lparr>ReqPoolId = 5\<rparr>) =
     (([], 0), None, Some (Errorf NotFound ''liquidity pool %d doesn't exist'' [5]))"
    by simp
  from liquidity_pool_query[of ?k "([], 0)" "\<lparr>ReqPoolId = 1\<rparr>" "\<lparr>Id = 1\<rparr>"] some
  have b: "LiquidityPool ?k ([], 0) (Some \<lparr>ReqPoolId = 1\<rparr>) =
     (([], 0), Some \<lparr>RespLiquidityPool = \<lparr>Id = 1\<rparr>\<rparr>, None)"
    by simp
  from none some a b show ?thesis by simp
qed


section \<open>\<^verbatim>\<open>SwapExecution\<close>: the returns before the batch is matched\<close>

lemma priceDiscovery_empty:
  "GetAllNotProcessedPoolBatchSwapMsgStates k s pb = [] \<Longrightarrow>
     priceDiscovery k s pb = Inr (Return (s, 0, None))"
  by (simp add: priceDiscovery_def)

lemma priceDiscovery_no_pool:
  "GetAllNotProcessedPoolBatchSwapMsgStates k s pb \<noteq> [] \<Longrightarrow> GetPool k s (PoolId pb) = None \<Longrightarrow>
     priceDiscovery k s pb = Inr (Return (s, 0, Some ErrPoolNotExists))"
  by (simp add: priceDiscovery_def)


text \<open>
  C9. When the batch has no message state that is not processed, \<^verbatim>\<open>SwapExecution\<close>
  returns \<open>(0, nil)\<close> and the state it was called in; whatever \<^verbatim>\<open>GetPool\<close> and
  \<^verbatim>\<open>GetReserveCoins\<close> would answer makes no difference, so the pool is not read.
  When there are such message states and \<^verbatim>\<open>GetPool\<close> finds no pool under the pool id
  of the batch, it returns \<open>(0, ErrPoolNotExists)\<close> and, again, the state it was called
  in: no message state has been written as executed.
\<close>

theorem swap_execution_early_returns:
  "(GetAllNotProcessedPoolBatchSwapMsgStates k s pb = [] \<longrightarrow>
      SwapExecution k s pb = Inr (s, 0, None) \<and>
      SwapExecution (k\<lparr>GetPool := getPool, GetReserveCoins := getReserveCoins\<rparr>) s pb
        = Inr (s, 0, None)) \<and>
   (GetAllNotProcessedPoolBatchSwapMsgStates k s pb \<noteq> [] \<and> GetPool k s (PoolId pb) = None \<longrightarrow>
      SwapExecution k s pb = Inr (s, 0, Some ErrPoolNotExists))"
  by (simp add: SwapExecution_def priceDiscovery_empty priceDiscovery_no_pool)


text \<open>An empty batch of pool 1, and a batch of one order for pool 5, which is not there.\<close>

theorem swap_execution_early_returns_witness:
  "GetAllNotProcessedPoolBatchSwapMsgStates (exampleKeeper 1 [] [] True) ([], 0) exampleBatch = [] \<and>
   SwapExecution (exampleKeeper 1 [] [] True) ([], 0) exampleBatch = Inr (([], 0), 0, None) \<and>
   GetAllNotProcessedPoolBatchSwapMsgStates (exampleKeeper 1 [] [] True)
     ([(exampleOrder 10 10 0 1)\<lparr>Executed := False\<rparr>], 0) \<lparr>PoolId = 5\<rparr> \<noteq> [] \<and>
   GetPool (exampleKeeper 1 [] [] True) ([(exampleOrder 10 10 0 1)\<lparr>Executed := False\<rparr>], 0)
     (PoolId \<lparr>PoolId = 5\<rparr>) = None \<and>
   SwapExecution (exampleKeeper 1 [] [] True)
     ([(exampleOrder 10 10 0 1)\<lparr>Executed := False\<rparr>], 0) \<lparr>PoolId = 5\<rparr> =
     Inr (([(exampleOrder 10 10 0 1)\<lparr>Executed := False\<rparr>], 0), 0, Some ErrPoolNotExists)"
proof -
  let ?k = "exampleKeeper 1 [] [] True"
  let ?s = "([(exampleOrder 10 10 0 1)\<lparr>Executed := False\<rparr>], 0::nat)"
  have e: "GetAllNotProcessedPoolBatchSwapMsgStates ?k ([], 0) exampleBatch = []"
    by (simp add: exampleKeeper_def)
  have n: "GetAllNotProcessedPoolBatchSwapMsgStates ?k ?s \<lparr>PoolId = 5\<rparr> \<noteq> []"
    by (simp add: exampleKeeper_def)
  have p: "GetPool ?k ?s (PoolId \<lparr>PoolId = 5\<rparr>) = None"
    by (simp add: exampleKeeper_def)
  from swap_execution_early_returns[of ?k "([], 0)" exampleBatch] e
  have a: "SwapExecution ?k ([], 0) exampleBatch = Inr (([], 0), 0, None)" by blast
  from swap_execution_early_returns[of ?k ?s "\<lparr>PoolId = 5\<rparr>"] n p
  have b: "SwapExecution ?k ?s \<lparr>PoolId = 5\<rparr> = Inr (?s, 0, Some ErrPoolNotExists)" by blast
  from e n p a b show ?thesis by simp
qed


section \<open>\<^verbatim>\<open>SwapExecution\<close>: the batch that is matched\<close>

lemmas run_defs =
  SwapExecution_def findOrderMatches_def settleBatch_def applyMatches_def UpdateState_def
  sortSliceStable_def updateXtoY_def updateYtoX_def classify_def remainingNotMatched_def
  allocate_def

lemmas keeper_defs = exampleKeeper_def exampleVarsAfterDiscovery_def exampleBatch_def

text \<open>Price discovery calls neither the matcher nor the settlement.\<close>

lemma priceDiscovery_collaborators:
  "priceDiscovery (k\<lparr>FindOrderMatch := f, TransactAndRefundSwapLiquidityPool := t\<rparr>) s pb =
   priceDiscovery k s pb"
  by (simp add: priceDiscovery_def Let_def
      cong: option.case_cong sum.case_cong prod.case_cong if_cong)



text \<open>The example keeper on a batch of one order, and what its matcher answers.\<close>

lemma example_discovery:
  "priceDiscovery (exampleKeeper matchType fillsX fillsY valid) ([ord], 0) exampleBatch =
   Inr (Batch (exampleVarsAfterDiscovery matchType (ord\<lparr>Executed := True\<rparr>)))"
  by (simp add: priceDiscovery_def exampleKeeper_def exampleBatch_def
      exampleVarsAfterDiscovery_def dec_defs Let_def)

lemma example_fills:
  "findOrderMatches (exampleKeeper 1 fillsX fillsY valid) (exampleVarsAfterDiscovery 1 ord) =
     (fillsX, fillsY, ZeroDec, ZeroDec)"
  by (simp add: findOrderMatches_def exampleKeeper_def exampleVarsAfterDiscovery_def dec_defs)


lemma example_order_executed:
  "(exampleOrder original remaining exchanged fee)\<lparr>Executed := True\<rparr> =
     exampleOrder original remaining exchanged fee"
  by (simp add: exampleOrder_def)

subsection \<open>The return before the matcher's results are used\<close>




subsection \<open>One swap price\<close>

lemma findOrderMatches_at_price:
  assumes "\<forall>h d ps e ht. f h d ps e (SwapPrice (result b)) ht =
             FindOrderMatch k h d ps e (SwapPrice (result b)) ht"
  shows "findOrderMatches (k\<lparr>FindOrderMatch := f, TransactAndRefundSwapLiquidityPool := t\<rparr>) b =
         findOrderMatches k b"
  using assms by (simp add: findOrderMatches_def)

lemma applyMatches_collaborators:
  "applyMatches (k\<lparr>FindOrderMatch := f, TransactAndRefundSwapLiquidityPool := t\<rparr>) b ms =
   applyMatches k b ms"
  by (simp add: applyMatches_def Let_def
      cong: option.case_cong sum.case_cong prod.case_cong if_cong)

lemma settleBatch_at_result:
  assumes "\<forall>s' h ps m pl. t s' h ps m pl (result b) =
             TransactAndRefundSwapLiquidityPool k s' h ps m pl (result b)"
  shows "settleBatch (k\<lparr>FindOrderMatch := f, TransactAndRefundSwapLiquidityPool := t\<rparr>) b ms =
         settleBatch k b ms"
  using assms
  by (simp add: settleBatch_def applyMatches_collaborators Let_def
      cong: option.case_cong sum.case_cong prod.case_cong if_cong)


lemma indexMatchResults_distinct:
  "indexMatchResults ms m0 = Inr m1 \<Longrightarrow>
     distinct (map OrderMsgIndex ms) \<and> (\<forall>x \<in> set ms. m0 (OrderMsgIndex x) = None)"
proof (induction ms arbitrary: m0)
  case Nil
  then show ?case by simp
next
  case (Cons x xs)
  from Cons.prems have free: "m0 (OrderMsgIndex x) = None"
    and rest: "indexMatchResults xs (m0(OrderMsgIndex x \<mapsto> x)) = Inr m1"
    by (auto split: if_splits)
  from Cons.IH[OF rest] have d: "distinct (map OrderMsgIndex xs)"
    and fresh: "\<forall>y \<in> set xs. (m0(OrderMsgIndex x \<mapsto> x)) (OrderMsgIndex y) = None"
    by blast+
  from fresh have "\<forall>y \<in> set xs. OrderMsgIndex y \<noteq> OrderMsgIndex x \<and> m0 (OrderMsgIndex y) = None"
    by (auto split: if_splits)
  with d free show ?case by auto
qed

lemma indexMatchResults_entries:
  "indexMatchResults ms m0 = Inr m1 \<Longrightarrow>
     (\<forall>x \<in> set ms. m1 (OrderMsgIndex x) = Some x) \<and>
     (\<forall>i. i \<notin> OrderMsgIndex ` set ms \<longrightarrow> m1 i = m0 i)"
proof (induction ms arbitrary: m0)
  case Nil
  then show ?case by simp
next
  case (Cons x xs)
  from Cons.prems have rest: "indexMatchResults xs (m0(OrderMsgIndex x \<mapsto> x)) = Inr m1"
    by (auto split: if_splits)
  from indexMatchResults_distinct[OF rest]
  have fresh: "\<forall>y \<in> set xs. (m0(OrderMsgIndex x \<mapsto> x)) (OrderMsgIndex y) = None"
    by blast
  then have notin: "OrderMsgIndex x \<notin> OrderMsgIndex ` set xs"
    by (auto split: if_splits)
  from Cons.IH[OF rest] have inside: "\<forall>y \<in> set xs. m1 (OrderMsgIndex y) = Some y"
    and outside: "\<forall>i. i \<notin> OrderMsgIndex ` set xs \<longrightarrow> m1 i = (m0(OrderMsgIndex x \<mapsto> x)) i"
    by blast+
  from outside notin have "m1 (OrderMsgIndex x) = Some x" by simp
  with inside outside show ?case by auto
qed

lemma indexMatchResults_dom:
  assumes "indexMatchResults ms Map.empty = Inr m1"
  shows "dom m1 = OrderMsgIndex ` set ms"
proof -
  note e = indexMatchResults_entries[OF assms]
  show ?thesis
  proof (intro set_eqI iffI)
    fix i assume "i \<in> dom m1"
    then have "m1 i \<noteq> None" by auto
    with e show "i \<in> OrderMsgIndex ` set ms" by (cases "i \<in> OrderMsgIndex ` set ms") auto
  next
    fix i assume "i \<in> OrderMsgIndex ` set ms"
    with e show "i \<in> dom m1" by auto
  qed
qed

lemma settleBatch_Inr:
  assumes "MatchType (result b) \<noteq> 0"
    and "settleBatch k b (mX, mY, dX, dY) = Inr (s', n, e)"
  shows "\<exists>XtoY YtoX X' Y' v h1 h2 h3 h4 mm.
           UpdateState (reserveX b) (reserveY b) (ordersXtoY b) (ordersYtoX b) mX mY (objects b) =
             Inr (XtoY, YtoX, X', Y', v) \<and>
           ValidateStateAndExpireOrders k XtoY (currentHeight b) False (orders v) = Inr h1 \<and>
           ValidateStateAndExpireOrders k YtoX (currentHeight b) False h1 = Inr h2 \<and>
           ValidateStateAndExpireOrders k XtoY (currentHeight b) True h2 = Inr h3 \<and>
           ValidateStateAndExpireOrders k YtoX (currentHeight b) True h3 = Inr h4 \<and>
           indexMatchResults (mX @ mY) Map.empty = Inr mm \<and>
           TransactAndRefundSwapLiquidityPool k (ctx b) h4 (swapMsgStates b) mm (pool b) (result b) =
             Inr s'"
  using assms
  by (auto simp: settleBatch_def applyMatches_def Let_def
      split: sum.splits prod.splits if_splits option.splits)

lemma settleBatch_count:
  "settleBatch k b ms = Inr (s', n, e) \<Longrightarrow> n = of_nat (length (swapMsgStates b)) \<and> e = None"
  by (auto simp: settleBatch_def Let_def split: sum.splits prod.splits if_splits option.splits)

lemma settleBatch_zero:
  "MatchType (result b) = 0 \<Longrightarrow> settleBatch k b ms = Inr (ctx b, of_nat (length (swapMsgStates b)), None)"
  by (simp add: settleBatch_def Let_def split: prod.splits)

lemma findOrderMatches_fills:
  "fst (findOrderMatches k b) =
     (if MatchType (result b) = NoMatch k then []
      else fst (FindOrderMatch k (objects b) (DirectionXtoY k) (ordersXtoY b)
                  (ResultEX (result b)) (SwapPrice (result b)) (currentHeight b))) \<and>
   fst (snd (findOrderMatches k b)) =
     (if MatchType (result b) = NoMatch k then []
      else fst (FindOrderMatch k (objects b) (DirectionYtoX k) (ordersYtoX b)
                  (ResultEY (result b)) (SwapPrice (result b)) (currentHeight b)))"
  by (simp add: findOrderMatches_def Let_def split: prod.splits)

text \<open>
  C1. The single swap price. Take a batch for which price discovery has returned a
  batch result. The fills of the batch are what the matcher answers for the XtoY
  side and for the YtoX side at the one price \<open>SwapPrice\<close> of that batch result, and
  none when the match type is \<^verbatim>\<open>types.NoMatch\<close>. When \<^verbatim>\<open>SwapExecution\<close> returns and the
  match type is not 0, these fills are the match results \<^verbatim>\<open>UpdateState\<close> has
  processed, and the state returned is the one the settlement has made of the
  state line 28 left, from the orders as \<^verbatim>\<open>UpdateState\<close> and the validations
  left them, the index that maps the order msg index of each of these fills to the
  fill and holds nothing else, and that same batch result. A match result has no
  price field of its own: the price recorded for a fill is the \<open>SwapPrice\<close> of the
  batch result the settlement is handed with it. When the match type is 0, no fill
  is settled. No other price is used: a matcher that agrees with the keeper's at
  that price, and a settlement that agrees with the keeper's on that batch result,
  leave the outcome of \<^verbatim>\<open>SwapExecution\<close> as it is, whatever they do at another
  price.
\<close>

theorem single_swap_price:
  assumes disc: "priceDiscovery k s pb = Inr (Batch b)"
    and fillsX: "fillsX = (if MatchType (result b) = NoMatch k then []
         else fst (FindOrderMatch k (objects b) (DirectionXtoY k) (ordersXtoY b)
                     (ResultEX (result b)) (SwapPrice (result b)) (currentHeight b)))"
    and fillsY: "fillsY = (if MatchType (result b) = NoMatch k then []
         else fst (FindOrderMatch k (objects b) (DirectionYtoX k) (ordersYtoX b)
                     (ResultEY (result b)) (SwapPrice (result b)) (currentHeight b)))"
  shows "((\<forall>h d ps e ht. f h d ps e (SwapPrice (result b)) ht =
             FindOrderMatch k h d ps e (SwapPrice (result b)) ht) \<and>
          (\<forall>s0 h ps m pl. t s0 h ps m pl (result b) =
             TransactAndRefundSwapLiquidityPool k s0 h ps m pl (result b)) \<longrightarrow>
          SwapExecution (k\<lparr>FindOrderMatch := f, TransactAndRefundSwapLiquidityPool := t\<rparr>) s pb =
            SwapExecution k s pb) \<and>
         (SwapExecution k s pb = Inr (s', n, e) \<longrightarrow>
            n = of_nat (length (swapMsgStates b)) \<and> e = None \<and>
            (MatchType (result b) = 0 \<longrightarrow> s' = ctx b) \<and>
            (MatchType (result b) \<noteq> 0 \<longrightarrow>
               (\<exists>XtoY YtoX X' Y' v h1 h2 h3 h4 mm.
                  UpdateState (reserveX b) (reserveY b) (ordersXtoY b) (ordersYtoX b)
                    fillsX fillsY (objects b) = Inr (XtoY, YtoX, X', Y', v) \<and>
                  ValidateStateAndExpireOrders k XtoY (currentHeight b) False (orders v) = Inr h1 \<and>
                  ValidateStateAndExpireOrders k YtoX (currentHeight b) False h1 = Inr h2 \<and>
                  ValidateStateAndExpireOrders k XtoY (currentHeight b) True h2 = Inr h3 \<and>
                  ValidateStateAndExpireOrders k YtoX (currentHeight b) True h3 = Inr h4 \<and>
                  dom mm = OrderMsgIndex ` set (fillsX @ fillsY) \<and>
                  (\<forall>fill \<in> set (fillsX @ fillsY). mm (OrderMsgIndex fill) = Some fill) \<and>
                  TransactAndRefundSwapLiquidityPool k (ctx b) h4 (swapMsgStates b) mm (pool b)
                    (result b) = Inr s')))"
proof (intro conjI impI)
  assume "(\<forall>h d ps e ht. f h d ps e (SwapPrice (result b)) ht =
             FindOrderMatch k h d ps e (SwapPrice (result b)) ht) \<and>
          (\<forall>s0 h ps m pl. t s0 h ps m pl (result b) =
             TransactAndRefundSwapLiquidityPool k s0 h ps m pl (result b))"
  then show "SwapExecution (k\<lparr>FindOrderMatch := f, TransactAndRefundSwapLiquidityPool := t\<rparr>) s pb =
            SwapExecution k s pb"
    using disc
    by (simp add: SwapExecution_def priceDiscovery_collaborators
        findOrderMatches_at_price settleBatch_at_result)
next
  assume run: "SwapExecution k s pb = Inr (s', n, e)"
  obtain dX dY where fills: "findOrderMatches k b = (fillsX, fillsY, dX, dY)"
    using findOrderMatches_fills[of k b] fillsX fillsY
    by (cases "findOrderMatches k b") simp
  from run disc fills have settled: "settleBatch k b (fillsX, fillsY, dX, dY) = Inr (s', n, e)"
    by (simp add: SwapExecution_def)
  from settleBatch_count[OF settled]
  show "n = of_nat (length (swapMsgStates b))" and "e = None" by simp_all
  {
    assume "MatchType (result b) = 0"
    from settleBatch_zero[OF this, of k "(fillsX, fillsY, dX, dY)"] settled
    show "s' = ctx b" by simp
  }
  {
    assume "MatchType (result b) \<noteq> 0"
    from settleBatch_Inr[OF this settled] obtain XtoY YtoX X' Y' v h1 h2 h3 h4 mm where
      u: "UpdateState (reserveX b) (reserveY b) (ordersXtoY b) (ordersYtoX b) fillsX fillsY
            (objects b) = Inr (XtoY, YtoX, X', Y', v)" and
      v1: "ValidateStateAndExpireOrders k XtoY (currentHeight b) False (orders v) = Inr h1" and
      v2: "ValidateStateAndExpireOrders k YtoX (currentHeight b) False h1 = Inr h2" and
      v3: "ValidateStateAndExpireOrders k XtoY (currentHeight b) True h2 = Inr h3" and
      v4: "ValidateStateAndExpireOrders k YtoX (currentHeight b) True h3 = Inr h4" and
      ix: "indexMatchResults (fillsX @ fillsY) Map.empty = Inr mm" and
      tr: "TransactAndRefundSwapLiquidityPool k (ctx b) h4 (swapMsgStates b) mm (pool b)
             (result b) = Inr s'"
      by blast
    from indexMatchResults_entries[OF ix]
    have en: "\<forall>fill \<in> set (fillsX @ fillsY). mm (OrderMsgIndex fill) = Some fill" by blast
    note dm = indexMatchResults_dom[OF ix]
    from u v1 v2 v3 v4 dm en tr
    show "\<exists>XtoY YtoX X' Y' v h1 h2 h3 h4 mm.
                  UpdateState (reserveX b) (reserveY b) (ordersXtoY b) (ordersYtoX b)
                    fillsX fillsY (objects b) = Inr (XtoY, YtoX, X', Y', v) \<and>
                  ValidateStateAndExpireOrders k XtoY (currentHeight b) False (orders v) = Inr h1 \<and>
                  ValidateStateAndExpireOrders k YtoX (currentHeight b) False h1 = Inr h2 \<and>
                  ValidateStateAndExpireOrders k XtoY (currentHeight b) True h2 = Inr h3 \<and>
                  ValidateStateAndExpireOrders k YtoX (currentHeight b) True h3 = Inr h4 \<and>
                  dom mm = OrderMsgIndex ` set (fillsX @ fillsY) \<and>
                  (\<forall>fill \<in> set (fillsX @ fillsY). mm (OrderMsgIndex fill) = Some fill) \<and>
                  TransactAndRefundSwapLiquidityPool k (ctx b) h4 (swapMsgStates b) mm (pool b)
                    (result b) = Inr s'"
      by blast
  }
qed

text \<open>
  The example matcher differs from the example keeper's at the price 2 and agrees
  with it at the price 1 of the batch; the one fill of the batch is settled under
  its order msg index 1.
\<close>

lemma example_run:
  "SwapExecution (exampleKeeper 1 [exampleFill 10000000000000000000 9000000000000000000 0] [] True)
     ([exampleOrder 10 10 0 1], 0) exampleBatch =
   Inr (([(exampleOrder 10 0 10 1)\<lparr>Succeeded := True, ToBeDeleted := True\<rparr>], 1), 1, None)"
  by (simp add: SwapExecution_def example_discovery example_order_executed)
     (simp add: run_defs keeper_defs example_defs dec_defs coin_defs Let_def)

theorem single_swap_price_witness:
  "priceDiscovery (exampleKeeper 1 [exampleFill 10000000000000000000 9000000000000000000 0] [] True)
     ([exampleOrder 10 10 0 1], 0) exampleBatch =
     Inr (Batch (exampleVarsAfterDiscovery 1 (exampleOrder 10 10 0 1))) \<and>
   SwapPrice (result (exampleVarsAfterDiscovery 1 (exampleOrder 10 10 0 1))) = OneDec \<and>
   exampleMatcher Map.empty 1 [] 0 (2 * OneDec) 7 \<noteq>
     FindOrderMatch
       (exampleKeeper 1 [exampleFill 10000000000000000000 9000000000000000000 0] [] True)
       Map.empty 1 [] 0 (2 * OneDec) 7 \<and>
   SwapExecution
     ((exampleKeeper 1 [exampleFill 10000000000000000000 9000000000000000000 0] [] True)
        \<lparr>FindOrderMatch := exampleMatcher,
         TransactAndRefundSwapLiquidityPool := exampleSettlement\<rparr>)
     ([exampleOrder 10 10 0 1], 0) exampleBatch =
   Inr (([(exampleOrder 10 0 10 1)\<lparr>Succeeded := True, ToBeDeleted := True\<rparr>], 1), 1, None) \<and>
   SwapExecution
     (exampleKeeper 1 [exampleFill 10000000000000000000 9000000000000000000 0] [] True)
     ([exampleOrder 10 10 0 1], 0) exampleBatch =
   Inr (([(exampleOrder 10 0 10 1)\<lparr>Succeeded := True, ToBeDeleted := True\<rparr>], 1), 1, None) \<and>
   (\<exists>XtoY YtoX X' Y' v h4 mm.
      UpdateState (ToDec 1000) (ToDec 1000) [0] []
        [exampleFill 10000000000000000000 9000000000000000000 0] []
        (allocate [exampleOrder 10 10 0 1]) = Inr (XtoY, YtoX, X', Y', v) \<and>
      dom mm = {1} \<and>
      mm 1 = Some (exampleFill 10000000000000000000 9000000000000000000 0) \<and>
      TransactAndRefundSwapLiquidityPool
        (exampleKeeper 1 [exampleFill 10000000000000000000 9000000000000000000 0] [] True)
        ([exampleOrder 10 10 0 1], 0) h4 [0] mm \<lparr>Id = 1\<rparr>
        \<lparr>MatchType = 1, SwapPrice = OneDec, ResultEX = ToDec 10, ResultEY = ZeroDec\<rparr> =
      Inr ([(exampleOrder 10 0 10 1)\<lparr>Succeeded := True, ToBeDeleted := True\<rparr>], 1))"
proof -
  let ?ff = "exampleFill 10000000000000000000 9000000000000000000 0"
  let ?k = "exampleKeeper 1 [?ff] [] True"
  let ?s = "([exampleOrder 10 10 0 1], 0::nat)"
  let ?b = "exampleVarsAfterDiscovery 1 (exampleOrder 10 10 0 1)"
  let ?r = "(([(exampleOrder 10 0 10 1)\<lparr>Succeeded := True, ToBeDeleted := True\<rparr>], 1::nat),
             1::64 word, None::error option)"
  have d: "priceDiscovery ?k ?s exampleBatch = Inr (Batch ?b)"
    by (simp add: example_discovery example_order_executed)
  have p: "SwapPrice (result ?b) = OneDec"
    by (simp add: exampleVarsAfterDiscovery_def)
  have fx: "[?ff] = (if MatchType (result ?b) = NoMatch ?k then []
         else fst (FindOrderMatch ?k (objects ?b) (DirectionXtoY ?k) (ordersXtoY ?b)
                     (ResultEX (result ?b)) (SwapPrice (result ?b)) (currentHeight ?b)))"
    by (simp add: keeper_defs)
  have fy: "[] = (if MatchType (result ?b) = NoMatch ?k then []
         else fst (FindOrderMatch ?k (objects ?b) (DirectionYtoX ?k) (ordersYtoX ?b)
                     (ResultEY (result ?b)) (SwapPrice (result ?b)) (currentHeight ?b)))"
    by (simp add: keeper_defs)
  have m: "\<forall>h d ps e ht. exampleMatcher h d ps e (SwapPrice (result ?b)) ht =
             FindOrderMatch ?k h d ps e (SwapPrice (result ?b)) ht"
    by (simp add: exampleMatcher_def keeper_defs)
  have t: "\<forall>s0 h ps m pl. exampleSettlement s0 h ps m pl (result ?b) =
             TransactAndRefundSwapLiquidityPool ?k s0 h ps m pl (result ?b)"
    by (simp add: exampleSettlement_def keeper_defs)
  have other: "exampleMatcher Map.empty 1 [] 0 (2 * OneDec) 7 \<noteq>
      FindOrderMatch ?k Map.empty 1 [] 0 (2 * OneDec) 7"
    by (simp add: exampleMatcher_def exampleKeeper_def dec_defs)
  have matched: "MatchType (result ?b) \<noteq> 0"
    by (simp add: exampleVarsAfterDiscovery_def)
  let ?s' = "([(exampleOrder 10 0 10 1)\<lparr>Succeeded := True, ToBeDeleted := True\<rparr>], 1::nat)"
  note inst = single_swap_price[where k = ?k and b = ?b and f = exampleMatcher
      and t = exampleSettlement and s' = ?s' and n = 1 and e = None, OF d fx fy]
  from inst m t example_run
  have same: "SwapExecution (?k\<lparr>FindOrderMatch := exampleMatcher,
         TransactAndRefundSwapLiquidityPool := exampleSettlement\<rparr>) ?s exampleBatch = Inr ?r"
    by simp
  note returned = mp[OF conjunct2[OF inst] example_run]
  from mp[OF conjunct2[OF conjunct2[OF conjunct2[OF returned]]] matched]
  obtain XtoY YtoX X' Y' v h4 mm where
    u: "UpdateState (reserveX ?b) (reserveY ?b) (ordersXtoY ?b) (ordersYtoX ?b) [?ff] []
          (objects ?b) = Inr (XtoY, YtoX, X', Y', v)" and
    dm: "dom mm = OrderMsgIndex ` set ([?ff] @ [])" and
    en: "\<forall>fill \<in> set ([?ff] @ []). mm (OrderMsgIndex fill) = Some fill" and
    tr: "TransactAndRefundSwapLiquidityPool ?k (ctx ?b) h4 (swapMsgStates ?b) mm (pool ?b)
           (result ?b) = Inr ?s'"
    by (elim exE conjE) (rule that)
  have u': "UpdateState (ToDec 1000) (ToDec 1000) [0] [] [?ff] []
        (allocate [exampleOrder 10 10 0 1]) = Inr (XtoY, YtoX, X', Y', v)"
    using u by (simp add: exampleVarsAfterDiscovery_def)
  have dm': "dom mm = {1}" using dm by (simp add: exampleFill_def)
  have en': "mm 1 = Some ?ff" using en by (simp add: exampleFill_def)
  have tr': "TransactAndRefundSwapLiquidityPool ?k ([exampleOrder 10 10 0 1], 0) h4 [0] mm \<lparr>Id = 1\<rparr>
        \<lparr>MatchType = 1, SwapPrice = OneDec, ResultEX = ToDec 10, ResultEY = ZeroDec\<rparr> =
      Inr ([(exampleOrder 10 0 10 1)\<lparr>Succeeded := True, ToBeDeleted := True\<rparr>], 1)"
    using tr by (simp add: exampleVarsAfterDiscovery_def)
  from u' dm' en' tr' have ex: "\<exists>XtoY YtoX X' Y' v h4 mm.
      UpdateState (ToDec 1000) (ToDec 1000) [0] [] [?ff] []
        (allocate [exampleOrder 10 10 0 1]) = Inr (XtoY, YtoX, X', Y', v) \<and>
      dom mm = {1} \<and> mm 1 = Some ?ff \<and>
      TransactAndRefundSwapLiquidityPool ?k ([exampleOrder 10 10 0 1], 0) h4 [0] mm \<lparr>Id = 1\<rparr>
        \<lparr>MatchType = 1, SwapPrice = OneDec, ResultEX = ToDec 10, ResultEY = ZeroDec\<rparr> =
      Inr ([(exampleOrder 10 0 10 1)\<lparr>Succeeded := True, ToBeDeleted := True\<rparr>], 1)"
    by blast
  show ?thesis
    by (intro conjI, rule d, rule p, rule other, rule same, rule example_run, rule ex)
qed

subsection \<open>The aborts\<close>

lemma updateXtoY_violation:
  assumes "orders v (BatchMsg m) = Some ord" and "classify ord m \<noteq> FractionalMatch"
    and "(let transacted = TruncateInt (TransactedCoinAmt m);
              exchanged = Amount (ExchangedOfferCoin ord) + transacted;
              left = Amount (CoinSafeSubAmount (RemainingOfferCoin ord) transacted);
              remaining = (if classify ord m = OffByOneDecimal \<and> left = 1 then 0 else left);
              fee = Amount (CoinSafeSubAmount (ReservedOfferCoinFee ord)
                              (TruncateInt (OfferCoinFeeAmt m)))
          in Amount (OfferCoin (Msg ord)) < remaining + exchanged \<or> remaining \<noteq> 0 \<or> 2 \<le> fee)"
  shows "\<exists>p. updateXtoY m v = Inl p"
proof (cases "updateXtoY m v")
  case (Inl p)
  then show ?thesis by blast
next
  case (Inr v')
  from updateXtoY_settled[OF Inr assms(1,2)] assms(3) have False
    by (auto simp: Let_def split: if_splits)
  then show ?thesis ..
qed

lemma updateYtoX_violation:
  assumes "orders v (BatchMsg m) = Some ord" and "classify ord m \<noteq> FractionalMatch"
    and "(let transacted = TruncateInt (TransactedCoinAmt m);
              exchanged = Amount (ExchangedOfferCoin ord) + transacted;
              left = Amount (CoinSafeSubAmount (RemainingOfferCoin ord) transacted);
              remaining = (if classify ord m = OffByOneDecimal \<and> left = 1 then 0 else left);
              fee = Amount (CoinSafeSubAmount (ReservedOfferCoinFee ord)
                              (TruncateInt (OfferCoinFeeAmt m)))
          in Amount (OfferCoin (Msg ord)) < remaining + exchanged \<or> remaining \<noteq> 0 \<or> 2 \<le> fee)"
  shows "\<exists>p. updateYtoX m v = Inl p"
proof (cases "updateYtoX m v")
  case (Inl p)
  then show ?thesis by blast
next
  case (Inr v')
  from updateYtoX_settled[OF Inr assms(1,2)] assms(3) have False
    by (auto simp: Let_def split: if_splits)
  then show ?thesis ..
qed

lemma updateAllXtoY_abort:
  "updateAllXtoY pre v = Inr v1 \<Longrightarrow> updateXtoY m v1 = Inl p \<Longrightarrow>
     updateAllXtoY (pre @ m # post) v = Inl p"
  by (induction pre arbitrary: v) (auto split: sum.splits)

lemma updateAllYtoX_abort:
  "updateAllYtoX pre v = Inr v1 \<Longrightarrow> updateYtoX m v1 = Inl p \<Longrightarrow>
     updateAllYtoX (pre @ m # post) v = Inl p"
  by (induction pre arbitrary: v) (auto split: sum.splits)

lemma UpdateState_abort_X:
  "updateAllXtoY mX (initialVars h) = Inl p \<Longrightarrow> \<exists>q. UpdateState X Y XtoY YtoX mX mY h = Inl q"
  by (simp add: UpdateState_def split: sum.splits)

lemma UpdateState_abort_Y:
  "updateAllXtoY mX (initialVars h) = Inr v1 \<Longrightarrow> updateAllYtoX mY v1 = Inl p \<Longrightarrow>
     \<exists>q. UpdateState X Y XtoY YtoX mX mY h = Inl q"
  by (simp add: UpdateState_def split: sum.splits)

lemma SwapExecution_settles:
  assumes "priceDiscovery k s pb = Inr (Batch b)" and "MatchType (result b) \<noteq> 0"
    and "findOrderMatches k b = (mX, mY, dX, dY)"
  shows "SwapExecution k s pb = settleBatch k b (mX, mY, dX, dY)"
  using assms by (simp add: SwapExecution_def)

lemma settleBatch_UpdateState_abort:
  assumes "MatchType (result b) \<noteq> 0"
    and "UpdateState (reserveX b) (reserveY b) (ordersXtoY b) (ordersYtoX b) mX mY (objects b) = Inl p"
  shows "settleBatch k b (mX, mY, dX, dY) = Inl p"
  using assms by (simp add: settleBatch_def applyMatches_def)

lemma applyMatches_Inr:
  assumes "applyMatches k b (mX, mY, dX, dY) = Inr (XtoY, YtoX, lastPrice, h)"
  shows "\<exists>X' Y' v. UpdateState (reserveX b) (reserveY b) (ordersXtoY b) (ordersYtoX b) mX mY
                      (objects b) = Inr (XtoY, YtoX, X', Y', v) \<and>
                    Quo k X' Y' = Inr lastPrice"
  using assms
  by (auto simp: applyMatches_def split: sum.splits option.splits if_splits)

lemma settleBatch_invalid:
  assumes "MatchType (result b) \<noteq> 0"
    and "applyMatches k b (mX, mY, dX, dY) = Inr (XtoY, YtoX, lastPrice, h)"
    and "\<not> Validate k (SortOrderBook k (fst (MakeOrderMap k h (XtoY @ YtoX) (denomX b) (denomY b) True)))
           lastPrice"
  shows "settleBatch k b (mX, mY, dX, dY) = Inl ErrOrderBookInvalidity"
  using assms by (auto simp: settleBatch_def Let_def split: prod.splits)

lemma settleBatch_duplicate:
  assumes "MatchType (result b) \<noteq> 0"
    and "\<not> distinct (map OrderMsgIndex (mX @ mY))"
  shows "\<exists>p. settleBatch k b (mX, mY, dX, dY) = Inl p"
proof (cases "settleBatch k b (mX, mY, dX, dY)")
  case (Inl p)
  then show ?thesis by blast
next
  case (Inr r)
  then obtain m1 where "indexMatchResults (mX @ mY) Map.empty = Inr m1"
    using assms(1)
    by (auto simp: settleBatch_def Let_def split: sum.splits prod.splits if_splits)
  from indexMatchResults_distinct[OF this] assms(2) show ?thesis by blast
qed

lemma settleBatch_no_error:
  "settleBatch k b ms \<noteq> Inr (s', n, Some e)"
  by (auto simp: settleBatch_def Let_def split: sum.splits prod.splits if_splits option.splits)


text \<open>
  C6 (amended). The fatal violations. Take a batch that price discovery has
  returned, with a match type other than 0, so that the run goes on after line 65,
  and the match results \<open>mX\<close>, \<open>mY\<close> of lines 50-61. Then \<^verbatim>\<open>SwapExecution\<close> aborts, and
  does not return an error,
  \<^item> when two of the match results have one order msg index;
  \<^item> when \<^verbatim>\<open>UpdateState\<close> and the validations after it have returned, and the order
    book rebuilt from the orders as they are then is not valid at the last price,
    which is the quotient of the reserves \<^verbatim>\<open>UpdateState\<close> returned: the panic is
    \<open>ErrOrderBookInvalidity\<close>;
  \<^item> with the panic of \<^verbatim>\<open>UpdateState\<close>, when \<^verbatim>\<open>UpdateState\<close> aborts;
  \<^item> when a loop of \<^verbatim>\<open>UpdateState\<close> comes to a match result of the full or the
    off-by-one branch after whose updates the remaining offer plus the exchanged
    offer exceeds the original offer amount, or the remaining offer is not zero,
    or the reserved fee is 2 or more.
  No run of such a batch returns an error.
\<close>

theorem invariant_violations_abort:
  assumes disc: "priceDiscovery k s pb = Inr (Batch b)"
    and matched: "MatchType (result b) \<noteq> 0"
    and fills: "findOrderMatches k b = (mX, mY, dX, dY)"
  shows "(\<not> distinct (map OrderMsgIndex (mX @ mY)) \<longrightarrow> (\<exists>p. SwapExecution k s pb = Inl p)) \<and>
         (applyMatches k b (mX, mY, dX, dY) = Inr (XtoY, YtoX, lastPrice, h) \<longrightarrow>
            (\<exists>X' Y' v. UpdateState (reserveX b) (reserveY b) (ordersXtoY b) (ordersYtoX b) mX mY
                          (objects b) = Inr (XtoY, YtoX, X', Y', v) \<and>
                        Quo k X' Y' = Inr lastPrice) \<and>
            (\<not> Validate k
                 (SortOrderBook k (fst (MakeOrderMap k h (XtoY @ YtoX) (denomX b) (denomY b) True)))
                 lastPrice \<longrightarrow>
               SwapExecution k s pb = Inl ErrOrderBookInvalidity)) \<and>
         (UpdateState (reserveX b) (reserveY b) (ordersXtoY b) (ordersYtoX b) mX mY (objects b)
            = Inl p \<longrightarrow> SwapExecution k s pb = Inl p) \<and>
         (mX = pre @ m # post \<and> updateAllXtoY pre (initialVars (objects b)) = Inr v1 \<and>
          orders v1 (BatchMsg m) = Some ord \<and> classify ord m \<noteq> FractionalMatch \<and>
          (let transacted = TruncateInt (TransactedCoinAmt m);
               exchanged = Amount (ExchangedOfferCoin ord) + transacted;
               left = Amount (CoinSafeSubAmount (RemainingOfferCoin ord) transacted);
               remaining = (if classify ord m = OffByOneDecimal \<and> left = 1 then 0 else left);
               fee = Amount (CoinSafeSubAmount (ReservedOfferCoinFee ord)
                               (TruncateInt (OfferCoinFeeAmt m)))
           in Amount (OfferCoin (Msg ord)) < remaining + exchanged \<or> remaining \<noteq> 0 \<or> 2 \<le> fee) \<longrightarrow>
            (\<exists>q. SwapExecution k s pb = Inl q)) \<and>
         (updateAllXtoY mX (initialVars (objects b)) = Inr w0 \<and>
          mY = pre @ m # post \<and> updateAllYtoX pre w0 = Inr w1 \<and>
          orders w1 (BatchMsg m) = Some ord \<and> classify ord m \<noteq> FractionalMatch \<and>
          (let transacted = TruncateInt (TransactedCoinAmt m);
               exchanged = Amount (ExchangedOfferCoin ord) + transacted;
               left = Amount (CoinSafeSubAmount (RemainingOfferCoin ord) transacted);
               remaining = (if classify ord m = OffByOneDecimal \<and> left = 1 then 0 else left);
               fee = Amount (CoinSafeSubAmount (ReservedOfferCoinFee ord)
                               (TruncateInt (OfferCoinFeeAmt m)))
           in Amount (OfferCoin (Msg ord)) < remaining + exchanged \<or> remaining \<noteq> 0 \<or> 2 \<le> fee) \<longrightarrow>
            (\<exists>q. SwapExecution k s pb = Inl q)) \<and>
         (\<forall>s' n e. SwapExecution k s pb \<noteq> Inr (s', n, Some e))"
proof -
  note run = SwapExecution_settles[OF disc matched fills]
  have dup: "\<not> distinct (map OrderMsgIndex (mX @ mY)) \<longrightarrow> (\<exists>p. SwapExecution k s pb = Inl p)"
    using settleBatch_duplicate[OF matched, of mX mY k dX dY] run by (simp only:) blast
  have book: "applyMatches k b (mX, mY, dX, dY) = Inr (XtoY, YtoX, lastPrice, h) \<longrightarrow>
            (\<exists>X' Y' v. UpdateState (reserveX b) (reserveY b) (ordersXtoY b) (ordersYtoX b) mX mY
                          (objects b) = Inr (XtoY, YtoX, X', Y', v) \<and>
                        Quo k X' Y' = Inr lastPrice) \<and>
            (\<not> Validate k
                 (SortOrderBook k (fst (MakeOrderMap k h (XtoY @ YtoX) (denomX b) (denomY b) True)))
                 lastPrice \<longrightarrow>
               SwapExecution k s pb = Inl ErrOrderBookInvalidity)"
    using applyMatches_Inr settleBatch_invalid[OF matched] run by metis
  have upd: "UpdateState (reserveX b) (reserveY b) (ordersXtoY b) (ordersYtoX b) mX mY (objects b)
            = Inl q \<Longrightarrow> SwapExecution k s pb = Inl q" for q
    using settleBatch_UpdateState_abort[OF matched] run by simp
  have stepX: "mX = pre @ m # post \<and> updateAllXtoY pre (initialVars (objects b)) = Inr v1 \<and>
          orders v1 (BatchMsg m) = Some ord \<and> classify ord m \<noteq> FractionalMatch \<and>
          (let transacted = TruncateInt (TransactedCoinAmt m);
               exchanged = Amount (ExchangedOfferCoin ord) + transacted;
               left = Amount (CoinSafeSubAmount (RemainingOfferCoin ord) transacted);
               remaining = (if classify ord m = OffByOneDecimal \<and> left = 1 then 0 else left);
               fee = Amount (CoinSafeSubAmount (ReservedOfferCoinFee ord)
                               (TruncateInt (OfferCoinFeeAmt m)))
           in Amount (OfferCoin (Msg ord)) < remaining + exchanged \<or> remaining \<noteq> 0 \<or> 2 \<le> fee) \<longrightarrow>
            (\<exists>q. SwapExecution k s pb = Inl q)"
  proof
    assume a: "mX = pre @ m # post \<and> updateAllXtoY pre (initialVars (objects b)) = Inr v1 \<and>
          orders v1 (BatchMsg m) = Some ord \<and> classify ord m \<noteq> FractionalMatch \<and>
          (let transacted = TruncateInt (TransactedCoinAmt m);
               exchanged = Amount (ExchangedOfferCoin ord) + transacted;
               left = Amount (CoinSafeSubAmount (RemainingOfferCoin ord) transacted);
               remaining = (if classify ord m = OffByOneDecimal \<and> left = 1 then 0 else left);
               fee = Amount (CoinSafeSubAmount (ReservedOfferCoinFee ord)
                               (TruncateInt (OfferCoinFeeAmt m)))
           in Amount (OfferCoin (Msg ord)) < remaining + exchanged \<or> remaining \<noteq> 0 \<or> 2 \<le> fee)"
    then obtain q where "updateXtoY m v1 = Inl q"
      using updateXtoY_violation[of v1 m ord] by blast
    with a have "updateAllXtoY mX (initialVars (objects b)) = Inl q"
      using updateAllXtoY_abort by blast
    from UpdateState_abort_X[OF this] upd show "\<exists>q. SwapExecution k s pb = Inl q" by blast
  qed
  have stepY: "updateAllXtoY mX (initialVars (objects b)) = Inr w0 \<and>
          mY = pre @ m # post \<and> updateAllYtoX pre w0 = Inr w1 \<and>
          orders w1 (BatchMsg m) = Some ord \<and> classify ord m \<noteq> FractionalMatch \<and>
          (let transacted = TruncateInt (TransactedCoinAmt m);
               exchanged = Amount (ExchangedOfferCoin ord) + transacted;
               left = Amount (CoinSafeSubAmount (RemainingOfferCoin ord) transacted);
               remaining = (if classify ord m = OffByOneDecimal \<and> left = 1 then 0 else left);
               fee = Amount (CoinSafeSubAmount (ReservedOfferCoinFee ord)
                               (TruncateInt (OfferCoinFeeAmt m)))
           in Amount (OfferCoin (Msg ord)) < remaining + exchanged \<or> remaining \<noteq> 0 \<or> 2 \<le> fee) \<longrightarrow>
            (\<exists>q. SwapExecution k s pb = Inl q)"
  proof
    assume a: "updateAllXtoY mX (initialVars (objects b)) = Inr w0 \<and>
          mY = pre @ m # post \<and> updateAllYtoX pre w0 = Inr w1 \<and>
          orders w1 (BatchMsg m) = Some ord \<and> classify ord m \<noteq> FractionalMatch \<and>
          (let transacted = TruncateInt (TransactedCoinAmt m);
               exchanged = Amount (ExchangedOfferCoin ord) + transacted;
               left = Amount (CoinSafeSubAmount (RemainingOfferCoin ord) transacted);
               remaining = (if classify ord m = OffByOneDecimal \<and> left = 1 then 0 else left);
               fee = Amount (CoinSafeSubAmount (ReservedOfferCoinFee ord)
                               (TruncateInt (OfferCoinFeeAmt m)))
           in Amount (OfferCoin (Msg ord)) < remaining + exchanged \<or> remaining \<noteq> 0 \<or> 2 \<le> fee)"
    then obtain q where "updateYtoX m w1 = Inl q"
      using updateYtoX_violation[of w1 m ord] by blast
    with a have "updateAllYtoX mY w0 = Inl q"
      using updateAllYtoX_abort by blast
    with a UpdateState_abort_Y upd show "\<exists>q. SwapExecution k s pb = Inl q" by blast
  qed
  have noerr: "\<forall>s' n e. SwapExecution k s pb \<noteq> Inr (s', n, Some e)"
    using settleBatch_no_error run by metis
  from dup book upd[of p] stepX stepY noerr show ?thesis by blast
qed


text \<open>
  Two fractional fills of 4 under the order msg index 1; a full fill and an executed
  order book that is not valid; a full fill that leaves a reserved fee of 5.
\<close>

theorem invariant_violations_abort_witness:
  "(\<exists>p. SwapExecution
          (exampleKeeper 1 [exampleFill 4000000000000000000 4000000000000000000 0,
                            exampleFill 4000000000000000000 4000000000000000000 0] [] True)
          ([exampleOrder 10 10 0 1], 0) exampleBatch = Inl p) \<and>
   SwapExecution
     (exampleKeeper 1 [exampleFill 10000000000000000000 9000000000000000000 0] [] False)
     ([exampleOrder 10 10 0 1], 0) exampleBatch = Inl ErrOrderBookInvalidity \<and>
   SwapExecution
     (exampleKeeper 1 [exampleFill 10000000000000000000 9000000000000000000 0] [] True)
     ([exampleOrder 10 10 0 5], 0) exampleBatch = Inl RemainingNotMatched1"
proof -
  let ?o1 = "exampleOrder 10 10 0 1"
  let ?o5 = "exampleOrder 10 10 0 5"
  let ?f4 = "exampleFill 4000000000000000000 4000000000000000000 0"
  let ?ff = "exampleFill 10000000000000000000 9000000000000000000 0"
  have e1: "?o1\<lparr>Executed := True\<rparr> = ?o1" and e5: "?o5\<lparr>Executed := True\<rparr> = ?o5"
    by (simp_all add: exampleOrder_def)
  have one: "MatchType (result (exampleVarsAfterDiscovery 1 ord)) \<noteq> 0" for ord
    by (simp add: exampleVarsAfterDiscovery_def)
  \<comment> \<open>two fills under one order msg index\<close>
  let ?kd = "exampleKeeper 1 [?f4, ?f4] [] True"
  have dd: "priceDiscovery ?kd ([?o1], 0) exampleBatch = Inr (Batch (exampleVarsAfterDiscovery 1 ?o1))"
    using example_discovery[of 1 "[?f4, ?f4]" "[]" True ?o1] by (simp only: e1)
  have "\<not> distinct (map OrderMsgIndex ([?f4, ?f4] @ []))" by simp
  with invariant_violations_abort[OF dd one example_fills]
  have a: "\<exists>p. SwapExecution ?kd ([?o1], 0) exampleBatch = Inl p" by blast
  \<comment> \<open>an executed order book that is not valid at the last price\<close>
  let ?ki = "exampleKeeper 1 [?ff] [] False"
  have di: "priceDiscovery ?ki ([?o1], 0) exampleBatch = Inr (Batch (exampleVarsAfterDiscovery 1 ?o1))"
    using example_discovery[of 1 "[?ff]" "[]" False ?o1] by (simp only: e1)
  have "\<exists>XtoY YtoX lastPrice h.
          applyMatches ?ki (exampleVarsAfterDiscovery 1 ?o1) ([?ff], [], ZeroDec, ZeroDec) =
            Inr (XtoY, YtoX, lastPrice, h)"
    by (simp add: applyMatches_def UpdateState_def sortSliceStable_def updateXtoY_def
        classify_def remainingNotMatched_def allocate_def keeper_defs example_defs dec_defs
        coin_defs Let_def)
  then obtain XtoY YtoX lastPrice h where
    am: "applyMatches ?ki (exampleVarsAfterDiscovery 1 ?o1) ([?ff], [], ZeroDec, ZeroDec) =
            Inr (XtoY, YtoX, lastPrice, h)"
    by blast
  have "\<not> Validate ?ki (SortOrderBook ?ki (fst (MakeOrderMap ?ki h (XtoY @ YtoX)
            (denomX (exampleVarsAfterDiscovery 1 ?o1)) (denomY (exampleVarsAfterDiscovery 1 ?o1))
            True))) lastPrice"
    by (simp add: exampleKeeper_def)
  with invariant_violations_abort[OF di one example_fills, of XtoY YtoX lastPrice h] am
  have b: "SwapExecution ?ki ([?o1], 0) exampleBatch = Inl ErrOrderBookInvalidity" by blast
  \<comment> \<open>a full fill that leaves a reserved fee of 5\<close>
  let ?kf = "exampleKeeper 1 [?ff] [] True"
  have df: "priceDiscovery ?kf ([?o5], 0) exampleBatch = Inr (Batch (exampleVarsAfterDiscovery 1 ?o5))"
    using example_discovery[of 1 "[?ff]" "[]" True ?o5] by (simp only: e5)
  have "UpdateState (reserveX (exampleVarsAfterDiscovery 1 ?o5))
          (reserveY (exampleVarsAfterDiscovery 1 ?o5)) (ordersXtoY (exampleVarsAfterDiscovery 1 ?o5))
          (ordersYtoX (exampleVarsAfterDiscovery 1 ?o5)) [?ff] []
          (objects (exampleVarsAfterDiscovery 1 ?o5)) = Inl RemainingNotMatched1"
    by (simp add: UpdateState_def sortSliceStable_def updateXtoY_def
        classify_def remainingNotMatched_def allocate_def keeper_defs example_defs dec_defs
        coin_defs Let_def)
  with invariant_violations_abort[OF df one example_fills, where p = RemainingNotMatched1]
  have c: "SwapExecution ?kf ([?o5], 0) exampleBatch = Inl RemainingNotMatched1" by blast
  from a b c show ?thesis by blast
qed

text \<open>
  With the match type 0 \<^verbatim>\<open>SwapExecution\<close> returns at line 65, before any of these
  checks. Where \<^verbatim>\<open>types.NoMatch\<close> is not 0, as under the example keeper, the matcher
  has run by then (line 55): here it has answered with two match results of the
  order msg index 1, on which the loop of lines 91-98 aborts, and \<^verbatim>\<open>SwapExecution\<close>
  returns the message count and no error.
\<close>

theorem invariant_violations_abort_counterexample:
  "priceDiscovery
     (exampleKeeper 0 [exampleFill 4000000000000000000 4000000000000000000 0,
                       exampleFill 4000000000000000000 4000000000000000000 0] [] True)
     ([exampleOrder 10 10 0 1], 0) exampleBatch =
     Inr (Batch (exampleVarsAfterDiscovery 0 (exampleOrder 10 10 0 1))) \<and>
   MatchType (result (exampleVarsAfterDiscovery 0 (exampleOrder 10 10 0 1))) = 0 \<and>
   findOrderMatches
     (exampleKeeper 0 [exampleFill 4000000000000000000 4000000000000000000 0,
                       exampleFill 4000000000000000000 4000000000000000000 0] [] True)
     (exampleVarsAfterDiscovery 0 (exampleOrder 10 10 0 1)) =
     ([exampleFill 4000000000000000000 4000000000000000000 0,
       exampleFill 4000000000000000000 4000000000000000000 0], [], ZeroDec, ZeroDec) \<and>
   \<not> distinct (map OrderMsgIndex
        ([exampleFill 4000000000000000000 4000000000000000000 0,
          exampleFill 4000000000000000000 4000000000000000000 0] @ [])) \<and>
   indexMatchResults
     ([exampleFill 4000000000000000000 4000000000000000000 0,
       exampleFill 4000000000000000000 4000000000000000000 0] @ []) Map.empty =
     Inl DuplicatedMatchOrder \<and>
   SwapExecution
     (exampleKeeper 0 [exampleFill 4000000000000000000 4000000000000000000 0,
                       exampleFill 4000000000000000000 4000000000000000000 0] [] True)
     ([exampleOrder 10 10 0 1], 0) exampleBatch =
     Inr (([exampleOrder 10 10 0 1], 0), 1, None)"
proof -
  let ?f = "exampleFill 4000000000000000000 4000000000000000000 0"
  let ?k = "exampleKeeper 0 [?f, ?f] [] True"
  let ?s = "([exampleOrder 10 10 0 1], 0::nat)"
  let ?b = "exampleVarsAfterDiscovery 0 (exampleOrder 10 10 0 1)"
  have d: "priceDiscovery ?k ?s exampleBatch = Inr (Batch ?b)"
    by (simp add: example_discovery example_order_executed)
  have z: "MatchType (result ?b) = 0"
    by (simp add: exampleVarsAfterDiscovery_def)
  have f: "findOrderMatches ?k ?b = ([?f, ?f], [], ZeroDec, ZeroDec)"
    by (simp add: findOrderMatches_def keeper_defs dec_defs)
  have dup: "\<not> distinct (map OrderMsgIndex ([?f, ?f] @ []))" by simp
  have idx: "indexMatchResults ([?f, ?f] @ []) Map.empty = Inl DuplicatedMatchOrder"
    by (simp add: exampleFill_def)
  have "SwapExecution ?k ?s exampleBatch = settleBatch ?k ?b ([?f, ?f], [], ZeroDec, ZeroDec)"
    by (simp add: SwapExecution_def d f)
  also have "\<dots> = Inr (([exampleOrder 10 10 0 1], 0), 1, None)"
    by (simp add: settleBatch_def keeper_defs)
  finally have run: "SwapExecution ?k ?s exampleBatch = Inr (([exampleOrder 10 10 0 1], 0), 1, None)" .
  show ?thesis
    by (intro conjI, rule d, rule z, rule f, rule dup, rule idx, rule run)
qed


end
